theory Spec2Isabelle
  imports Complex_Main
begin

section \<open>Data model\<close>

text \<open>
  Shallow embedding of the transactional core of the store backend:
  \<^verbatim>\<open>app/services/cart_service.py\<close>, \<^verbatim>\<open>app/services/orders.py\<close>,
  \<^verbatim>\<open>app/services/inventory.py\<close> and the models they use.

  Conventions.
  \<^item> Python \<^verbatim>\<open>Decimal\<close> amounts are exact rationals (\<^typ>\<open>rat\<close>); an amount computed in
    Python is exact, an amount written to a \<^verbatim>\<open>Numeric(12, 2)\<close> column of \<^verbatim>\<open>Cart\<close> or \<^verbatim>\<open>Order\<close>
    is what the column holds, rounded to two decimals (\<open>quantize\<close>). The 28-digit context
    precision and the 12-digit limit of the columns are outside the model.
  \<^item> Python \<^verbatim>\<open>int\<close> is \<^typ>\<open>int\<close>; \<^verbatim>\<open>datetime\<close> is a number of seconds (\<^typ>\<open>int\<close>).
  \<^item> A mapped class is a record; record fields carry a prefix naming the class
    (\<open>ci_quantity\<close> is \<^verbatim>\<open>CartItem.quantity\<close>).
  \<^item> Tables read by primary key are maps from the key; tables that are filtered are
    lists in table order, and \<^verbatim>\<open>.first()\<close> is \<^const>\<open>find\<close>.
  \<^item> Values the database or the clock supply (the id given at \<^verbatim>\<open>flush\<close>, the generated
    order number, \<^verbatim>\<open>utcnow()\<close>) are parameters of the functions that use them.
\<close>

type_synonym money = rat
type_synonym datetime = int

text \<open>
  Modelled from the spec: the classes \<^verbatim>\<open>Product\<close> and \<^verbatim>\<open>ProductVariation\<close> of
  \<^verbatim>\<open>app/models/product.py\<close>, which the services import. The fields are those the spec
  lists for Product (price, stock, is_active) and the ones the services read from a
  variation (product_id, nullable stock). The primary key is the key of the table map.
\<close>

record Product =
  p_price :: money
  p_stock :: int
  p_is_active :: bool

record ProductVariation =
  v_product_id :: int
  v_stock :: "int option"

record Cart =
  c_id :: int
  c_user_id :: "int option"
  c_session_id :: "string option"
  c_status :: string
  c_subtotal :: money
  c_tax_amount :: money
  c_discount_amount :: money
  c_total :: money
  c_promo_code :: "string option"

record CartItem =
  ci_cart_id :: int
  ci_user_id :: "int option"
  ci_product_id :: int
  ci_variation_id :: "int option"
  ci_quantity :: int
  ci_unit_price :: "money option"

text \<open>
  \<^verbatim>\<open>Order\<close>: the mapped columns, and four attributes that \<^verbatim>\<open>OrderService\<close> sets on the
  Python object although the class maps no column for them (\<open>o_admin_notes\<close>,
  \<open>o_cancelled_at\<close>, \<open>o_cancelled_by\<close>, \<open>o_cancellation_reason\<close>). They are \<open>None\<close> in
  every stored row and are only ever set on a returned object.
\<close>

record Order =
  o_id :: int
  o_user_id :: "int option"
  o_address_id :: "int option"
  o_order_number :: string
  o_total_amount :: money
  o_shipping_cost :: money
  o_tax_amount :: money
  o_discount_amount :: money
  o_coupon_code :: "string option"
  o_payment_method :: string
  o_payment_status :: string
  o_status :: string
  o_notes :: "string option"
  o_created_at :: datetime
  o_admin_notes :: "string option"
  o_cancelled_at :: "datetime option"
  o_cancelled_by :: "int option"
  o_cancellation_reason :: "string option"

record OrderItem =
  oi_order_id :: int
  oi_product_id :: "int option"
  oi_variation_id :: "int option"
  oi_quantity :: int
  oi_price :: money

record OrderStatusHistory =
  h_order_id :: int
  h_from_status :: "string option"
  h_to_status :: string
  h_changed_by :: "int option"
  h_notes :: "string option"

record InventoryLog =
  l_product_id :: int
  l_change_quantity :: int
  l_new_stock :: int
  l_reason :: string
  l_admin_id :: "int option"
  l_order_id :: "int option"

text \<open>
  \<^verbatim>\<open>Address\<close> (\<^verbatim>\<open>app/models/customer.py\<close>): the services read only its id, the key of the
  table map, and its \<^verbatim>\<open>user_id\<close>.
\<close>

record Address =
  a_user_id :: int

record tables =
  products :: "int \<rightharpoonup> Product"
  variations :: "int \<rightharpoonup> ProductVariation"
  addresses :: "int \<rightharpoonup> Address"
  orders :: "int \<rightharpoonup> Order"
  carts :: "Cart list"
  cart_items :: "CartItem list"
  order_items :: "OrderItem list"
  order_status_history :: "OrderStatusHistory list"
  inventory_logs :: "InventoryLog list"

text \<open>
  A SQLAlchemy \<^verbatim>\<open>Session\<close>: \<open>committed\<close> is what the database holds, \<open>pending\<close> is what
  the session sees (the committed rows with the changes of the open transaction).
  Queries and attribute writes act on \<open>pending\<close>; \<^verbatim>\<open>commit\<close> publishes it and
  \<^verbatim>\<open>rollback\<close> discards it. \<^verbatim>\<open>flush\<close> and \<^verbatim>\<open>refresh\<close> change neither.
\<close>

record session =
  committed :: tables
  pending :: tables

definition db_commit :: "session \<Rightarrow> session" where
  "db_commit s = s\<lparr>committed := pending s\<rparr>"

definition db_rollback :: "session \<Rightarrow> session" where
  "db_rollback s = s\<lparr>pending := committed s\<rparr>"

definition db_write :: "(tables \<Rightarrow> tables) \<Rightarrow> session \<Rightarrow> session" where
  "db_write f s = s\<lparr>pending := f (pending s)\<rparr>"

subsection \<open>Enumerations\<close>

datatype OrderStatus =
  PENDING | CONFIRMED | PROCESSING | SHIPPED | OUT_FOR_DELIVERY
  | DELIVERED | CANCELLED | REFUNDED | ON_HOLD | FAILED

fun OrderStatus_value :: "OrderStatus \<Rightarrow> string" where
  "OrderStatus_value PENDING = ''pending''"
| "OrderStatus_value CONFIRMED = ''confirmed''"
| "OrderStatus_value PROCESSING = ''processing''"
| "OrderStatus_value SHIPPED = ''shipped''"
| "OrderStatus_value OUT_FOR_DELIVERY = ''out_for_delivery''"
| "OrderStatus_value DELIVERED = ''delivered''"
| "OrderStatus_value CANCELLED = ''cancelled''"
| "OrderStatus_value REFUNDED = ''refunded''"
| "OrderStatus_value ON_HOLD = ''on_hold''"
| "OrderStatus_value FAILED = ''failed''"

datatype CartStatus = ACTIVE | CONVERTED | EXPIRED | ABANDONED

fun CartStatus_value :: "CartStatus \<Rightarrow> string" where
  "CartStatus_value ACTIVE = ''active''"
| "CartStatus_value CONVERTED = ''converted''"
| "CartStatus_value EXPIRED = ''expired''"
| "CartStatus_value ABANDONED = ''abandoned''"

subsection \<open>Errors\<close>

text \<open>
  Every \<^verbatim>\<open>raise\<close> of the services is a constructor. The source has three exception
  classes (\<^verbatim>\<open>CartError\<close>, \<^verbatim>\<open>OrderError\<close>, \<^verbatim>\<open>HTTPException\<close>) that carry a message and an
  HTTP status; the constructor names the raise site, and its arguments are the values the
  message is formatted from.
  \<^item> \<open>CartNotFound\<close>: CartError "Product not found or not available" (404);
    \<open>VariationNotFound\<close>: CartError "Product variation not found" (404).
  \<^item> \<open>LimitExceeded\<close>: CartError "Maximum quantity per item is 10" (400).
  \<^item> \<open>CartInsufficientStock n\<close>: CartError "Insufficient stock. Only n items available" (400).
  \<^item> \<open>EmptyCart\<close>: OrderError "Cart is empty" (400).
  \<^item> \<open>ValidationFailed issues\<close>: OrderError with the issues joined by "; " (400).
  \<^item> \<open>AddressNotFound\<close>: OrderError "Shipping address not found" (404).
  \<^item> \<open>ProductNotFound pid\<close>: OrderError or HTTPException "Product ... not found" (404).
  \<^item> \<open>ProductNotAvailable pid\<close>: OrderError "Product ... is not available" (400).
  \<^item> \<open>InsufficientStock pid\<close>: OrderError "Insufficient stock for ..." (400).
  \<^item> \<open>NegativeStock\<close>: HTTPException "Stock cannot go below zero" (400).
  \<^item> \<open>OrderNotFound\<close>: OrderError "Order not found" (404).
  \<^item> \<open>InvalidTransition a b\<close>: OrderError "Cannot transition from 'a' to 'b'" (400).
  \<^item> \<open>Forbidden\<close>: OrderError "You can only cancel your own orders" (403).
  \<^item> \<open>NotCancellable st\<close>: OrderError "Order with status 'st' cannot be cancelled" (400).
  \<^item> \<open>WindowExpired\<close>: OrderError "Orders can only be cancelled within 24 hours" (400).
  \<^item> \<open>CreateOrderFailed e\<close>: OrderError "Failed to create order: e" (500), raised by the
    \<^verbatim>\<open>except Exception\<close> handlers of the two order-creation methods.
  \<^item> \<open>AttributeError a\<close>: Python's own error for reading an attribute of \<^verbatim>\<open>None\<close>, reading
    an attribute the object does not have, or assigning a property that has no setter.
\<close>

datatype issue =
  CartIsEmpty
  | NoLongerAvailable int
  | OnlyInStock int int int

datatype error =
  CartNotFound
  | VariationNotFound
  | LimitExceeded
  | CartInsufficientStock int
  | EmptyCart
  | ValidationFailed "issue list"
  | AddressNotFound
  | ProductNotFound int
  | ProductNotAvailable int
  | InsufficientStock int
  | NegativeStock
  | OrderNotFound
  | InvalidTransition string string
  | Forbidden
  | NotCancellable string
  | WindowExpired
  | CreateOrderFailed error
  | AttributeError string

subsection \<open>Python truthiness\<close>

definition truthy_int :: "int option \<Rightarrow> bool" where
  "truthy_int x = (case x of None \<Rightarrow> False | Some n \<Rightarrow> n \<noteq> 0)"

definition truthy_str :: "string option \<Rightarrow> bool" where
  "truthy_str x = (case x of None \<Rightarrow> False | Some n \<Rightarrow> n \<noteq> [])"

definition truthy_money :: "money option \<Rightarrow> bool" where
  "truthy_money x = (case x of None \<Rightarrow> False | Some n \<Rightarrow> n \<noteq> 0)"

subsection \<open>Amounts in the database\<close>

text \<open>
  The totals of \<^verbatim>\<open>Cart\<close> and the amounts of \<^verbatim>\<open>Order\<close> are \<^verbatim>\<open>Numeric(12, 2)\<close> columns. The
  default database is PostgreSQL, whose \<^verbatim>\<open>numeric\<close> rounds a written value to the scale of
  the column, ties away from zero. After \<^verbatim>\<open>commit\<close> (and \<^verbatim>\<open>refresh\<close>) the attributes of an
  object are read back from the row, so they hold the rounded value.
\<close>

definition quantize :: "money \<Rightarrow> money" where
  "quantize x =
     (if 0 \<le> x then of_int \<lfloor>x * 100 + 1 / 2\<rfloor> / 100
      else - (of_int \<lfloor>- x * 100 + 1 / 2\<rfloor> / 100))"

section \<open>Cart Manager\<close>





text \<open>\<^verbatim>\<open>cart.items\<close>: the relationship, read through the session.\<close>

definition cart_items_of :: "tables \<Rightarrow> Cart \<Rightarrow> CartItem list" where
  "cart_items_of t cart = filter (\<lambda>i. ci_cart_id i = c_id cart) (cart_items t)"

text \<open>
  \<^verbatim>\<open>price = item.unit_price or item.product.price\<close>: the snapshot when it is set and not
  zero, the product's live price otherwise; \<^verbatim>\<open>item.product\<close> is \<^verbatim>\<open>None\<close> when no product
  row has the item's product id, and reading its price then raises.
\<close>

definition price_of_item :: "tables \<Rightarrow> CartItem \<Rightarrow> error + money" where
  "price_of_item t item =
     (if truthy_money (ci_unit_price item) then Inr (the (ci_unit_price item))
      else (case products t (ci_product_id item) of
              None \<Rightarrow> Inl (AttributeError ''price'')
            | Some product \<Rightarrow> Inr (p_price product)))"

text \<open>The loop of \<^verbatim>\<open>CartService._update_cart_totals\<close>, with \<^verbatim>\<open>subtotal\<close> as accumulator.\<close>

fun cart_subtotal_loop :: "tables \<Rightarrow> CartItem list \<Rightarrow> money \<Rightarrow> error + money" where
  "cart_subtotal_loop t [] subtotal = Inr subtotal"
| "cart_subtotal_loop t (item # items) subtotal =
     (case price_of_item t item of
        Inl e \<Rightarrow> Inl e
      | Inr price \<Rightarrow> cart_subtotal_loop t items (subtotal + price * of_int (ci_quantity item)))"

definition store_cart :: "Cart \<Rightarrow> tables \<Rightarrow> tables" where
  "store_cart cart t = t\<lparr>carts := map (\<lambda>c. if c_id c = c_id cart then cart else c) (carts t)\<rparr>"




text \<open>\<^verbatim>\<open>CartService.get_cart\<close>: the owner's ACTIVE cart, without creating one.\<close>

definition get_cart :: "tables \<Rightarrow> int option \<Rightarrow> string option \<Rightarrow> Cart option" where
  "get_cart t user_id session_id =
     (if truthy_int user_id then
        find (\<lambda>c. c_user_id c = user_id \<and> c_status c = CartStatus_value ACTIVE) (carts t)
      else if truthy_str session_id then
        find (\<lambda>c. c_session_id c = session_id \<and> c_status c = CartStatus_value ACTIVE) (carts t)
      else None)"







text \<open>\<^verbatim>\<open>CartService.validate_cart_for_checkout\<close>: the loop, then the method.\<close>

definition line_available_stock :: "tables \<Rightarrow> CartItem \<Rightarrow> Product \<Rightarrow> int" where
  "line_available_stock t item product =
     (if truthy_int (ci_variation_id item) then
        (case variations t (the (ci_variation_id item)) of
           None \<Rightarrow> p_stock product
         | Some variation \<Rightarrow> (case v_stock variation of None \<Rightarrow> p_stock product | Some n \<Rightarrow> n))
      else p_stock product)"

fun validate_loop :: "tables \<Rightarrow> CartItem list \<Rightarrow> issue list \<Rightarrow> issue list" where
  "validate_loop t [] issues = issues"
| "validate_loop t (item # items) issues =
     (case products t (ci_product_id item) of
        None \<Rightarrow> validate_loop t items (issues @ [NoLongerAvailable (ci_product_id item)])
      | Some product \<Rightarrow>
          if \<not> p_is_active product
          then validate_loop t items (issues @ [NoLongerAvailable (ci_product_id item)])
          else if ci_quantity item > line_available_stock t item product
          then validate_loop t items
                 (issues @ [OnlyInStock (ci_product_id item)
                              (line_available_stock t item product) (ci_quantity item)])
          else validate_loop t items issues)"

definition validate_cart_for_checkout :: "tables \<Rightarrow> Cart \<Rightarrow> bool \<times> issue list" where
  "validate_cart_for_checkout t cart =
     (if cart_items_of t cart = [] then (False, [CartIsEmpty])
      else (let issues = validate_loop t (cart_items_of t cart) []
            in (length issues = 0, issues)))"

text \<open>\<^verbatim>\<open>CartService.mark_cart_converted\<close>.\<close>

definition mark_cart_converted :: "session \<Rightarrow> Cart \<Rightarrow> session" where
  "mark_cart_converted s cart =
     db_commit (db_write (store_cart (cart\<lparr>c_status := CartStatus_value CONVERTED\<rparr>)) s)"

section \<open>Stock Reservation\<close>

text \<open>
  \<^verbatim>\<open>OrderService._reserve_stock(db, cart_item, order_id)\<close>. \<^verbatim>\<open>cart_item.product\<close> is the row
  with the item's product id; reading \<^verbatim>\<open>stock\<close> of \<^verbatim>\<open>None\<close> raises.
\<close>

definition reserve_stock :: "session \<Rightarrow> CartItem \<Rightarrow> int \<Rightarrow> (error + unit) \<times> session" where
  "reserve_stock s cart_item order_id =
     (case products (pending s) (ci_product_id cart_item) of
        None \<Rightarrow> (Inl (AttributeError ''stock''), s)
      | Some product \<Rightarrow>
          if p_stock product < ci_quantity cart_item
          then (Inl (InsufficientStock (ci_product_id cart_item)), s)
          else
            (let product' = product\<lparr>p_stock := p_stock product - ci_quantity cart_item\<rparr>;
                 log = \<lparr>l_product_id = ci_product_id cart_item,
                        l_change_quantity = - ci_quantity cart_item,
                        l_new_stock = p_stock product',
                        l_reason = ''order_placed'',
                        l_admin_id = None,
                        l_order_id = Some order_id\<rparr>
             in (Inr (), db_write (\<lambda>t. t\<lparr>products := (products t)(ci_product_id cart_item \<mapsto> product'),
                                          inventory_logs := inventory_logs t @ [log]\<rparr>) s)))"

text \<open>\<^verbatim>\<open>OrderService._reserve_stock_direct(db, product_id, quantity, order_id)\<close>.\<close>

definition reserve_stock_direct ::
  "session \<Rightarrow> int \<Rightarrow> int \<Rightarrow> int \<Rightarrow> (error + unit) \<times> session" where
  "reserve_stock_direct s product_id quantity order_id =
     (case products (pending s) product_id of
        None \<Rightarrow> (Inl (ProductNotFound product_id), s)
      | Some product \<Rightarrow>
          if p_stock product < quantity then (Inl (InsufficientStock product_id), s)
          else
            (let product' = product\<lparr>p_stock := p_stock product - quantity\<rparr>;
                 log = \<lparr>l_product_id = product_id,
                        l_change_quantity = - quantity,
                        l_new_stock = p_stock product',
                        l_reason = ''order_placed'',
                        l_admin_id = None,
                        l_order_id = Some order_id\<rparr>
             in (Inr (), db_write (\<lambda>t. t\<lparr>products := (products t)(product_id \<mapsto> product'),
                                          inventory_logs := inventory_logs t @ [log]\<rparr>) s)))"

text \<open>
  \<^verbatim>\<open>OrderService._release_stock(db, product_id, quantity, order_id)\<close>. The product id comes
  from an order item, where the column is nullable; no row has the id \<^verbatim>\<open>None\<close>. When the
  query finds no product the method does nothing.
\<close>

definition product_by_id :: "tables \<Rightarrow> int option \<Rightarrow> Product option" where
  "product_by_id t product_id = (case product_id of None \<Rightarrow> None | Some pid \<Rightarrow> products t pid)"

definition release_stock :: "session \<Rightarrow> int option \<Rightarrow> int \<Rightarrow> int \<Rightarrow> session" where
  "release_stock s product_id quantity order_id =
     (case product_by_id (pending s) product_id of
        None \<Rightarrow> s
      | Some product \<Rightarrow>
          (let product' = product\<lparr>p_stock := p_stock product + quantity\<rparr>;
               log = \<lparr>l_product_id = the product_id,
                      l_change_quantity = quantity,
                      l_new_stock = p_stock product',
                      l_reason = ''order_cancelled'',
                      l_admin_id = None,
                      l_order_id = Some order_id\<rparr>
           in db_write (\<lambda>t. t\<lparr>products := (products t)(the product_id \<mapsto> product'),
                                inventory_logs := inventory_logs t @ [log]\<rparr>) s))"

text \<open>\<^verbatim>\<open>InventoryService.update_stock(db, product_id, change_quantity, reason, admin_id)\<close>.\<close>

definition update_stock ::
  "session \<Rightarrow> int \<Rightarrow> int \<Rightarrow> string \<Rightarrow> int option \<Rightarrow> (error + Product) \<times> session" where
  "update_stock s product_id change_quantity reason admin_id =
     (case products (pending s) product_id of
        None \<Rightarrow> (Inl (ProductNotFound product_id), s)
      | Some product \<Rightarrow>
          (let new_stock = p_stock product + change_quantity
           in if new_stock < 0 then (Inl NegativeStock, s)
              else
                (let product' = product\<lparr>p_stock := new_stock\<rparr>;
                     log_entry = \<lparr>l_product_id = product_id,
                                  l_change_quantity = change_quantity,
                                  l_new_stock = new_stock,
                                  l_reason = reason,
                                  l_admin_id = admin_id,
                                  l_order_id = None\<rparr>
                 in (Inr product',
                     db_commit (db_write (\<lambda>t. t\<lparr>products := (products t)(product_id \<mapsto> product'),
                                                 inventory_logs := inventory_logs t @ [log_entry]\<rparr>) s)))))"

section \<open>Order Engine\<close>

definition OrderService_TAX_RATE :: money where
  "OrderService_TAX_RATE = 18 / 100"

definition OrderService_FREE_SHIPPING_THRESHOLD :: money where
  "OrderService_FREE_SHIPPING_THRESHOLD = 50000"

definition OrderService_SHIPPING_COST :: money where
  "OrderService_SHIPPING_COST = 5000"

definition ORDER_CANCELLATION_WINDOW_HOURS :: int where
  "ORDER_CANCELLATION_WINDOW_HOURS = 24"

text \<open>
  The dictionary \<^verbatim>\<open>_calculate_order_totals\<close> returns. It has no key \<^verbatim>\<open>"discount"\<close>, so the
  \<^verbatim>\<open>totals.get("discount", Decimal("0"))\<close> of \<^verbatim>\<open>create_order_from_cart\<close> is always zero.
\<close>

record totals =
  t_subtotal :: money
  t_tax :: money
  t_shipping :: money
  t_total :: money

text \<open>The loop of \<^verbatim>\<open>OrderService._calculate_order_totals\<close>, then the method.\<close>

fun order_subtotal_loop :: "tables \<Rightarrow> CartItem list \<Rightarrow> money \<Rightarrow> error + money" where
  "order_subtotal_loop t [] subtotal = Inr subtotal"
| "order_subtotal_loop t (item # items) subtotal =
     (if truthy_money (ci_unit_price item)
      then order_subtotal_loop t items
             (subtotal + the (ci_unit_price item) * of_int (ci_quantity item))
      else (case products t (ci_product_id item) of
              None \<Rightarrow> Inl (AttributeError ''price'')
            | Some product \<Rightarrow>
                order_subtotal_loop t items (subtotal + p_price product * of_int (ci_quantity item))))"

definition calculate_order_totals :: "tables \<Rightarrow> CartItem list \<Rightarrow> error + totals" where
  "calculate_order_totals t cart_items_list =
     (case order_subtotal_loop t cart_items_list 0 of
        Inl e \<Rightarrow> Inl e
      | Inr subtotal \<Rightarrow>
          (let tax = subtotal * OrderService_TAX_RATE;
               shipping = (if subtotal < OrderService_FREE_SHIPPING_THRESHOLD
                           then OrderService_SHIPPING_COST else 0);
               total = subtotal + tax + shipping
           in Inr \<lparr>t_subtotal = subtotal, t_tax = tax, t_shipping = shipping, t_total = total\<rparr>))"

text \<open>\<^verbatim>\<open>OrderService._create_order_item(db, order_id, cart_item)\<close>.\<close>

definition create_order_item :: "tables \<Rightarrow> int \<Rightarrow> CartItem \<Rightarrow> error + OrderItem" where
  "create_order_item t order_id cart_item =
     (case (if truthy_money (ci_unit_price cart_item) then Inr (the (ci_unit_price cart_item))
            else (case products t (ci_product_id cart_item) of
                    None \<Rightarrow> Inl (AttributeError ''price'')
                  | Some product \<Rightarrow> Inr (p_price product))) of
        Inl e \<Rightarrow> Inl e
      | Inr item_price \<Rightarrow>
          Inr \<lparr>oi_order_id = order_id,
               oi_product_id = Some (ci_product_id cart_item),
               oi_variation_id = ci_variation_id cart_item,
               oi_quantity = ci_quantity cart_item,
               oi_price = item_price\<rparr>)"

text \<open>\<^verbatim>\<open>OrderService._record_status_change\<close>: one appended history row.\<close>

definition record_status_change ::
  "session \<Rightarrow> int \<Rightarrow> string option \<Rightarrow> string \<Rightarrow> int option \<Rightarrow> string option \<Rightarrow> session" where
  "record_status_change s order_id from_status to_status changed_by notes =
     db_write (\<lambda>t. t\<lparr>order_status_history := order_status_history t @
                        [\<lparr>h_order_id = order_id, h_from_status = from_status,
                          h_to_status = to_status, h_changed_by = changed_by,
                          h_notes = notes\<rparr>]\<rparr>) s"

record OrderFromCart =
  ofc_address_id :: int
  ofc_payment_method :: string
  ofc_notes :: "string option"
  ofc_promo_code :: "string option"

text \<open>
  The \<^verbatim>\<open>for cart_item in cart.items\<close> loop of \<^verbatim>\<open>create_order_from_cart\<close>: an order item
  is added and its stock reserved, line after line; an exception leaves the loop with the
  session as it is at that point.
\<close>

fun from_cart_loop :: "session \<Rightarrow> int \<Rightarrow> CartItem list \<Rightarrow> (error + unit) \<times> session" where
  "from_cart_loop s order_id [] = (Inr (), s)"
| "from_cart_loop s order_id (cart_item # rest) =
     (case create_order_item (pending s) order_id cart_item of
        Inl e \<Rightarrow> (Inl e, s)
      | Inr order_item \<Rightarrow>
          (case reserve_stock (db_write (\<lambda>t. t\<lparr>order_items := order_items t @ [order_item]\<rparr>) s)
                  cart_item order_id of
             (Inl e, s') \<Rightarrow> (Inl e, s')
           | (Inr _, s') \<Rightarrow> from_cart_loop s' order_id rest))"

text \<open>
  The \<^verbatim>\<open>try\<close> block of \<^verbatim>\<open>create_order_from_cart\<close>. \<open>new_id\<close> is the id the database gives the
  order at \<^verbatim>\<open>flush\<close>, \<open>order_number\<close> the result of \<^verbatim>\<open>generate_order_number()\<close>, \<open>now\<close> the
  server default of \<^verbatim>\<open>created_at\<close>. The order's amounts are those its \<^verbatim>\<open>Numeric(12, 2)\<close>
  columns hold, which is what the refreshed object returns.
\<close>

definition from_cart_try ::
  "session \<Rightarrow> int \<Rightarrow> OrderFromCart \<Rightarrow> Cart \<Rightarrow> int \<Rightarrow> string \<Rightarrow> datetime
     \<Rightarrow> (error + Order) \<times> session" where
  "from_cart_try s user_id order_data cart new_id order_number now =
     (case calculate_order_totals (pending s) (cart_items_of (pending s) cart) of
        Inl e \<Rightarrow> (Inl e, s)
      | Inr totals \<Rightarrow>
          (let order = \<lparr>o_id = new_id,
                        o_user_id = Some user_id,
                        o_address_id = Some (ofc_address_id order_data),
                        o_order_number = order_number,
                        o_total_amount = quantize (t_total totals),
                        o_shipping_cost = quantize (t_shipping totals),
                        o_tax_amount = quantize (t_tax totals),
                        o_discount_amount = 0,
                        o_coupon_code = ofc_promo_code order_data,
                        o_payment_method = ofc_payment_method order_data,
                        o_payment_status = ''pending'',
                        o_status = OrderStatus_value PENDING,
                        o_notes = ofc_notes order_data,
                        o_created_at = now,
                        o_admin_notes = None,
                        o_cancelled_at = None,
                        o_cancelled_by = None,
                        o_cancellation_reason = None\<rparr>;
               s1 = db_write (\<lambda>t. t\<lparr>orders := (orders t)(new_id \<mapsto> order)\<rparr>) s
           in (case from_cart_loop s1 new_id (cart_items_of (pending s) cart) of
                 (Inl e, s2) \<Rightarrow> (Inl e, s2)
               | (Inr _, s2) \<Rightarrow>
                   (let s3 = record_status_change s2 new_id None (OrderStatus_value PENDING)
                               (Some user_id) None;
                        s4 = mark_cart_converted s3 cart
                    in (Inr order, db_commit s4)))))"

text \<open>\<^verbatim>\<open>OrderService.create_order_from_cart(db, user, order_data)\<close>.\<close>

definition create_order_from_cart ::
  "session \<Rightarrow> int \<Rightarrow> OrderFromCart \<Rightarrow> int \<Rightarrow> string \<Rightarrow> datetime \<Rightarrow> (error + Order) \<times> session" where
  "create_order_from_cart s user_id order_data new_id order_number now =
     (case get_cart (pending s) (Some user_id) None of
        None \<Rightarrow> (Inl EmptyCart, s)
      | Some cart \<Rightarrow>
          if cart_items_of (pending s) cart = [] then (Inl EmptyCart, s)
          else
            (case validate_cart_for_checkout (pending s) cart of
               (is_valid, issues) \<Rightarrow>
                 if \<not> is_valid then (Inl (ValidationFailed issues), s)
                 else
                   (case (case addresses (pending s) (ofc_address_id order_data) of
                            None \<Rightarrow> None
                          | Some address \<Rightarrow>
                              if a_user_id address = user_id then Some address else None) of
                      None \<Rightarrow> (Inl AddressNotFound, s)
                    | Some address \<Rightarrow>
                        (case from_cart_try s user_id order_data cart new_id order_number now of
                           (Inl e, s') \<Rightarrow> (Inl (CreateOrderFailed e), db_rollback s')
                         | (Inr order, s') \<Rightarrow> (Inr order, s')))))"

subsection \<open>Guest orders\<close>

record OrderItemCreate =
  oic_product_id :: int
  oic_variation_id :: "int option"
  oic_quantity :: int

record GuestOrderCreate =
  g_guest_email :: string
  g_guest_name :: string
  g_guest_phone :: string
  g_items :: "OrderItemCreate list"
  g_payment_method :: string

text \<open>An entry of \<^verbatim>\<open>validated_items\<close>: the keys of the dictionary that are read later.\<close>

record validated_item =
  vi_product_id :: int
  vi_variation_id :: "int option"
  vi_quantity :: int
  vi_price :: money
  vi_subtotal :: money

text \<open>The loop of \<^verbatim>\<open>OrderService._validate_and_calculate_items\<close>, then the method.\<close>

fun validate_items_loop ::
  "tables \<Rightarrow> OrderItemCreate list \<Rightarrow> validated_item list \<Rightarrow> money
     \<Rightarrow> error + validated_item list \<times> money" where
  "validate_items_loop t [] validated_items subtotal = Inr (validated_items, subtotal)"
| "validate_items_loop t (item # items) validated_items subtotal =
     (case products t (oic_product_id item) of
        None \<Rightarrow> Inl (ProductNotFound (oic_product_id item))
      | Some product \<Rightarrow>
          if \<not> p_is_active product then Inl (ProductNotAvailable (oic_product_id item))
          else if p_stock product < oic_quantity item
          then Inl (InsufficientStock (oic_product_id item))
          else
            (let item_subtotal = p_price product * of_int (oic_quantity item)
             in validate_items_loop t items
                  (validated_items @
                     [\<lparr>vi_product_id = oic_product_id item,
                       vi_variation_id = oic_variation_id item,
                       vi_quantity = oic_quantity item,
                       vi_price = p_price product,
                       vi_subtotal = item_subtotal\<rparr>])
                  (subtotal + item_subtotal)))"

definition validate_and_calculate_items ::
  "tables \<Rightarrow> OrderItemCreate list \<Rightarrow> error + validated_item list \<times> totals" where
  "validate_and_calculate_items t items =
     (case validate_items_loop t items [] 0 of
        Inl e \<Rightarrow> Inl e
      | Inr (validated_items, subtotal) \<Rightarrow>
          (let tax = subtotal * OrderService_TAX_RATE;
               shipping = (if subtotal < OrderService_FREE_SHIPPING_THRESHOLD
                           then OrderService_SHIPPING_COST else 0);
               total = subtotal + tax + shipping
           in Inr (validated_items,
                   \<lparr>t_subtotal = subtotal, t_tax = tax, t_shipping = shipping,
                    t_total = total\<rparr>)))"

fun guest_loop :: "session \<Rightarrow> int \<Rightarrow> validated_item list \<Rightarrow> (error + unit) \<times> session" where
  "guest_loop s order_id [] = (Inr (), s)"
| "guest_loop s order_id (item_data # rest) =
     (let order_item = \<lparr>oi_order_id = order_id,
                         oi_product_id = Some (vi_product_id item_data),
                         oi_variation_id = vi_variation_id item_data,
                         oi_quantity = vi_quantity item_data,
                         oi_price = vi_price item_data\<rparr>
      in (case reserve_stock_direct
                 (db_write (\<lambda>t. t\<lparr>order_items := order_items t @ [order_item]\<rparr>) s)
                 (vi_product_id item_data) (vi_quantity item_data) order_id of
            (Inl e, s') \<Rightarrow> (Inl e, s')
          | (Inr _, s') \<Rightarrow> guest_loop s' order_id rest))"

definition guest_try ::
  "session \<Rightarrow> GuestOrderCreate \<Rightarrow> validated_item list \<Rightarrow> totals \<Rightarrow> int \<Rightarrow> string \<Rightarrow> datetime
     \<Rightarrow> (error + Order) \<times> session" where
  "guest_try s order_data validated_items totals new_id order_number now =
     (let order = \<lparr>o_id = new_id,
                   o_user_id = None,
                   o_address_id = None,
                   o_order_number = order_number,
                   o_total_amount = quantize (t_total totals),
                   o_shipping_cost = quantize (t_shipping totals),
                   o_tax_amount = quantize (t_tax totals),
                   o_discount_amount = 0,
                   o_coupon_code = None,
                   o_payment_method = g_payment_method order_data,
                   o_payment_status = ''pending'',
                   o_status = OrderStatus_value PENDING,
                   o_notes = Some (''Guest: '' @ g_guest_name order_data @ '' | ''
                                   @ g_guest_email order_data @ '' | ''
                                   @ g_guest_phone order_data),
                   o_created_at = now,
                   o_admin_notes = None,
                   o_cancelled_at = None,
                   o_cancelled_by = None,
                   o_cancellation_reason = None\<rparr>;
          s1 = db_write (\<lambda>t. t\<lparr>orders := (orders t)(new_id \<mapsto> order)\<rparr>) s
      in (case guest_loop s1 new_id validated_items of
            (Inl e, s2) \<Rightarrow> (Inl e, s2)
          | (Inr _, s2) \<Rightarrow>
              (Inr order,
               db_commit (record_status_change s2 new_id None (OrderStatus_value PENDING)
                            None None))))"

text \<open>\<^verbatim>\<open>OrderService.create_guest_order(db, order_data)\<close>.\<close>

definition create_guest_order ::
  "session \<Rightarrow> GuestOrderCreate \<Rightarrow> int \<Rightarrow> string \<Rightarrow> datetime \<Rightarrow> (error + Order) \<times> session" where
  "create_guest_order s order_data new_id order_number now =
     (case validate_and_calculate_items (pending s) (g_items order_data) of
        Inl e \<Rightarrow> (Inl e, s)
      | Inr (validated_items, totals) \<Rightarrow>
          (case guest_try s order_data validated_items totals new_id order_number now of
             (Inl e, s') \<Rightarrow> (Inl (CreateOrderFailed e), db_rollback s')
           | (Inr order, s') \<Rightarrow> (Inr order, s')))"

subsection \<open>Status state machine\<close>

text \<open>
  \<^verbatim>\<open>OrderService._get_valid_status_transitions(current_status)\<close>: the dictionary, read with
  \<^verbatim>\<open>transitions.get(current_status, [])\<close>.
\<close>

definition transitions :: "(string \<times> string list) list" where
  "transitions =
     [(OrderStatus_value PENDING,
         [OrderStatus_value CONFIRMED, OrderStatus_value CANCELLED,
          OrderStatus_value FAILED, OrderStatus_value ON_HOLD]),
      (OrderStatus_value CONFIRMED,
         [OrderStatus_value PROCESSING, OrderStatus_value CANCELLED, OrderStatus_value ON_HOLD]),
      (OrderStatus_value PROCESSING,
         [OrderStatus_value SHIPPED, OrderStatus_value CANCELLED, OrderStatus_value ON_HOLD]),
      (OrderStatus_value SHIPPED,
         [OrderStatus_value OUT_FOR_DELIVERY, OrderStatus_value DELIVERED]),
      (OrderStatus_value OUT_FOR_DELIVERY, [OrderStatus_value DELIVERED]),
      (OrderStatus_value DELIVERED, [OrderStatus_value REFUNDED]),
      (OrderStatus_value ON_HOLD,
         [OrderStatus_value PENDING, OrderStatus_value PROCESSING, OrderStatus_value CANCELLED]),
      (OrderStatus_value CANCELLED, []),
      (OrderStatus_value REFUNDED, []),
      (OrderStatus_value FAILED, [OrderStatus_value PENDING])]"

definition get_valid_status_transitions :: "string \<Rightarrow> string list" where
  "get_valid_status_transitions current_status =
     (case map_of transitions current_status of None \<Rightarrow> [] | Some l \<Rightarrow> l)"

text \<open>
  \<^verbatim>\<open>OrderService.update_order_status(db, order_id, new_status, admin_id, notes)\<close>.
  After the transition check the method writes the status, then:
  \<^item> \<^verbatim>\<open>order.admin_notes = notes if notes else order.admin_notes\<close> reads an attribute that
    class \<^verbatim>\<open>Order\<close> does not define when \<^verbatim>\<open>notes\<close> is empty or \<^verbatim>\<open>None\<close>;
  \<^item> \<^verbatim>\<open>order.shipped_at = ...\<close> and \<^verbatim>\<open>order.delivered_at = ...\<close> assign properties of
    \<^verbatim>\<open>Order\<close> that have no setter.
  Both raise \<^verbatim>\<open>AttributeError\<close>, with the status already written in the session and
  nothing committed.
\<close>

definition update_order_status ::
  "session \<Rightarrow> int \<Rightarrow> string \<Rightarrow> int \<Rightarrow> string option \<Rightarrow> (error + Order) \<times> session" where
  "update_order_status s order_id new_status admin_id notes =
     (case orders (pending s) order_id of
        None \<Rightarrow> (Inl OrderNotFound, s)
      | Some order \<Rightarrow>
          (let old_status = o_status order;
               valid_transitions = get_valid_status_transitions old_status
           in if new_status \<notin> set valid_transitions
              then (Inl (InvalidTransition old_status new_status), s)
              else
                (let s1 = db_write (\<lambda>t. t\<lparr>orders :=
                            (orders t)(order_id \<mapsto> order\<lparr>o_status := new_status\<rparr>)\<rparr>) s
                 in if \<not> truthy_str notes then (Inl (AttributeError ''admin_notes''), s1)
                    else if new_status = OrderStatus_value SHIPPED
                    then (Inl (AttributeError ''shipped_at''), s1)
                    else if new_status = OrderStatus_value DELIVERED
                    then (Inl (AttributeError ''delivered_at''), s1)
                    else
                      (Inr (order\<lparr>o_status := new_status, o_admin_notes := notes\<rparr>),
                       db_commit (record_status_change s1 order_id (Some old_status) new_status
                                    (Some admin_id) notes)))))"

subsection \<open>Cancellation\<close>

text \<open>\<^verbatim>\<open>Order.is_cancellable\<close> and \<^verbatim>\<open>order.items\<close>.\<close>

definition is_cancellable :: "Order \<Rightarrow> bool" where
  "is_cancellable order \<longleftrightarrow>
     o_status order \<in> set [OrderStatus_value PENDING, OrderStatus_value CONFIRMED,
                            OrderStatus_value PROCESSING]"

definition order_items_of :: "tables \<Rightarrow> Order \<Rightarrow> OrderItem list" where
  "order_items_of t order = filter (\<lambda>i. oi_order_id i = o_id order) (order_items t)"

text \<open>The \<^verbatim>\<open>for item in order.items\<close> loop of \<^verbatim>\<open>cancel_order\<close>.\<close>

fun release_loop :: "session \<Rightarrow> int \<Rightarrow> OrderItem list \<Rightarrow> session" where
  "release_loop s order_id [] = s"
| "release_loop s order_id (item # rest) =
     release_loop (release_stock s (oi_product_id item) (oi_quantity item) order_id) order_id rest"

text \<open>
  \<^verbatim>\<open>hours_since_order = (datetime.utcnow() - order.created_at).total_seconds() / 3600\<close>,
  with times in seconds and the quotient exact.
\<close>

definition hours_since_order :: "datetime \<Rightarrow> Order \<Rightarrow> rat" where
  "hours_since_order now order = of_int (now - o_created_at order) / 3600"

text \<open>
  \<^verbatim>\<open>OrderService.cancel_order(db, order_id, user_id, reason, is_admin)\<close>; \<open>now\<close> is the value
  of \<^verbatim>\<open>datetime.utcnow()\<close>. The stored row gets the new status; the cancellation metadata is set
  on the returned object only.
\<close>

definition cancel_order ::
  "session \<Rightarrow> int \<Rightarrow> int \<Rightarrow> string option \<Rightarrow> bool \<Rightarrow> datetime \<Rightarrow> (error + Order) \<times> session" where
  "cancel_order s order_id user_id reason is_admin now =
     (case orders (pending s) order_id of
        None \<Rightarrow> (Inl OrderNotFound, s)
      | Some order \<Rightarrow>
          if \<not> is_admin \<and> o_user_id order \<noteq> Some user_id then (Inl Forbidden, s)
          else if \<not> is_cancellable order then (Inl (NotCancellable (o_status order)), s)
          else if \<not> is_admin
                  \<and> hours_since_order now order > of_int ORDER_CANCELLATION_WINDOW_HOURS
          then (Inl WindowExpired, s)
          else
            (let old_status = o_status order;
                 s1 = release_loop s (o_id order) (order_items_of (pending s) order);
                 s2 = db_write (\<lambda>t. t\<lparr>orders := (orders t)(order_id \<mapsto>
                         order\<lparr>o_status := OrderStatus_value CANCELLED\<rparr>)\<rparr>) s1;
                 s3 = record_status_change s2 (o_id order) (Some old_status)
                        (OrderStatus_value CANCELLED) (Some user_id) reason
             in (Inr (order\<lparr>o_status := OrderStatus_value CANCELLED,
                             o_cancelled_at := Some now,
                             o_cancelled_by := Some user_id,
                             o_cancellation_reason := reason\<rparr>),
                 db_commit s3)))"

section \<open>The transition table and the ledger invariant, as the specification words them\<close>

text \<open>
  The table of section 4.3 of the specification, over the enumeration:
  PENDING to CONFIRMED, CANCELLED, FAILED, ON_HOLD; CONFIRMED to PROCESSING, CANCELLED,
  ON_HOLD; PROCESSING to SHIPPED, CANCELLED, ON_HOLD; SHIPPED to OUT_FOR_DELIVERY,
  DELIVERED; OUT_FOR_DELIVERY to DELIVERED; DELIVERED to REFUNDED; ON_HOLD to PENDING,
  PROCESSING, CANCELLED; FAILED to PENDING; CANCELLED and REFUNDED are terminal.
\<close>

fun spec_table :: "OrderStatus \<Rightarrow> OrderStatus list" where
  "spec_table PENDING = [CONFIRMED, CANCELLED, FAILED, ON_HOLD]"
| "spec_table CONFIRMED = [PROCESSING, CANCELLED, ON_HOLD]"
| "spec_table PROCESSING = [SHIPPED, CANCELLED, ON_HOLD]"
| "spec_table SHIPPED = [OUT_FOR_DELIVERY, DELIVERED]"
| "spec_table OUT_FOR_DELIVERY = [DELIVERED]"
| "spec_table DELIVERED = [REFUNDED]"
| "spec_table ON_HOLD = [PENDING, PROCESSING, CANCELLED]"
| "spec_table FAILED = [PENDING]"
| "spec_table CANCELLED = []"
| "spec_table REFUNDED = []"

text \<open>
  The ledger of a product: the sum of \<^verbatim>\<open>change_quantity\<close> over its entries. A state is
  consistent for a baseline when every product's stock is its baseline plus its ledger.
\<close>

definition ledger_sum :: "InventoryLog list \<Rightarrow> int \<Rightarrow> int" where
  "ledger_sum logs pid = sum_list (map l_change_quantity (filter (\<lambda>l. l_product_id l = pid) logs))"

definition ledger_consistent :: "(int \<Rightarrow> int) \<Rightarrow> tables \<Rightarrow> bool" where
  "ledger_consistent baseline t \<longleftrightarrow>
     (\<forall>pid product. products t pid = Some product
        \<longrightarrow> p_stock product = baseline pid + ledger_sum (inventory_logs t) pid)"

section \<open>A concrete store\<close>

text \<open>
  The scenario of the specification: product 10 costs 100 and has 5 in stock; user 7 has
  an ACTIVE cart holding 2 of it, and an address. \<open>demo_ordered\<close> is a store in which that
  cart has become order 1.
\<close>

definition demo_product :: Product where
  "demo_product = \<lparr>p_price = 100, p_stock = 5, p_is_active = True\<rparr>"

definition demo_cart :: Cart where
  "demo_cart = \<lparr>c_id = 1, c_user_id = Some 7, c_session_id = None, c_status = ''active'',
                 c_subtotal = 0, c_tax_amount = 0, c_discount_amount = 0, c_total = 0,
                 c_promo_code = None\<rparr>"

definition demo_item :: CartItem where
  "demo_item = \<lparr>ci_cart_id = 1, ci_user_id = Some 7, ci_product_id = 10,
                 ci_variation_id = None, ci_quantity = 2, ci_unit_price = Some 100\<rparr>"

definition demo_tables :: tables where
  "demo_tables = \<lparr>products = [10 \<mapsto> demo_product],
                   variations = Map.empty,
                   addresses = [3 \<mapsto> \<lparr>a_user_id = 7\<rparr>],
                   orders = Map.empty,
                   carts = [demo_cart],
                   cart_items = [demo_item],
                   order_items = [],
                   order_status_history = [],
                   inventory_logs = []\<rparr>"

definition demo_session :: session where
  "demo_session = \<lparr>committed = demo_tables, pending = demo_tables\<rparr>"

definition demo_order :: Order where
  "demo_order = \<lparr>o_id = 1, o_user_id = Some 7, o_address_id = Some 3,
                  o_order_number = ''ORD-1'', o_total_amount = 5236, o_shipping_cost = 5000,
                  o_tax_amount = 36, o_discount_amount = 0, o_coupon_code = None,
                  o_payment_method = ''cod'', o_payment_status = ''pending'',
                  o_status = ''pending'', o_notes = None, o_created_at = 0,
                  o_admin_notes = None, o_cancelled_at = None, o_cancelled_by = None,
                  o_cancellation_reason = None\<rparr>"

definition demo_ordered_tables :: tables where
  "demo_ordered_tables =
     \<lparr>products = [10 \<mapsto> demo_product\<lparr>p_stock := 3\<rparr>],
      variations = Map.empty,
      addresses = [3 \<mapsto> \<lparr>a_user_id = 7\<rparr>],
      orders = [1 \<mapsto> demo_order],
      carts = [demo_cart\<lparr>c_status := ''converted''\<rparr>],
      cart_items = [demo_item],
      order_items = [\<lparr>oi_order_id = 1, oi_product_id = Some 10, oi_variation_id = None,
                      oi_quantity = 2, oi_price = 100\<rparr>],
      order_status_history = [\<lparr>h_order_id = 1, h_from_status = None,
                               h_to_status = ''pending'', h_changed_by = Some 7,
                               h_notes = None\<rparr>],
      inventory_logs = [\<lparr>l_product_id = 10, l_change_quantity = - 2, l_new_stock = 3,
                         l_reason = ''order_placed'', l_admin_id = None,
                         l_order_id = Some 1\<rparr>]\<rparr>"

definition demo_ordered :: session where
  "demo_ordered = \<lparr>committed = demo_ordered_tables, pending = demo_ordered_tables\<rparr>"

text \<open>
  The price a cart line counts with: its snapshot \<^verbatim>\<open>unit_price\<close> when that is set and not
  zero, the product's live price otherwise (zero when the product row is missing, where the
  source raises instead).
\<close>

definition live_price :: "tables \<Rightarrow> CartItem \<Rightarrow> money" where
  "live_price t item = (case products t (ci_product_id item) of None \<Rightarrow> 0 | Some p \<Rightarrow> p_price p)"

definition line_price :: "tables \<Rightarrow> CartItem \<Rightarrow> money" where
  "line_price t item =
     (case ci_unit_price item of
        None \<Rightarrow> live_price t item
      | Some u \<Rightarrow> if u \<noteq> 0 then u else live_price t item)"






text \<open>
  What a list of cart lines takes from a product: the sum of the quantities of the lines
  with that product id. What the order creation writes for a line: its order item and the
  identifying part of its ledger entry.
\<close>

definition reserved_qty :: "CartItem list \<Rightarrow> int \<Rightarrow> int" where
  "reserved_qty lines pid =
     sum_list (map ci_quantity (filter (\<lambda>i. ci_product_id i = pid) lines))"

definition order_item_of :: "tables \<Rightarrow> int \<Rightarrow> CartItem \<Rightarrow> OrderItem" where
  "order_item_of t order_id i =
     \<lparr>oi_order_id = order_id, oi_product_id = Some (ci_product_id i),
      oi_variation_id = ci_variation_id i, oi_quantity = ci_quantity i,
      oi_price = line_price t i\<rparr>"

definition log_key :: "InventoryLog \<Rightarrow> int \<times> int \<times> string \<times> int option" where
  "log_key l = (l_product_id l, l_change_quantity l, l_reason l, l_order_id l)"

definition reserve :: "int \<Rightarrow> Product \<Rightarrow> Product" where
  "reserve q p = p\<lparr>p_stock := p_stock p - q\<rparr>"

text \<open>
  The same two notions for the validated items of a guest order.
\<close>

definition direct_qty :: "validated_item list \<Rightarrow> int \<Rightarrow> int" where
  "direct_qty items pid =
     sum_list (map vi_quantity (filter (\<lambda>i. vi_product_id i = pid) items))"

definition guest_item_of :: "int \<Rightarrow> validated_item \<Rightarrow> OrderItem" where
  "guest_item_of order_id i =
     \<lparr>oi_order_id = order_id, oi_product_id = Some (vi_product_id i),
      oi_variation_id = vi_variation_id i, oi_quantity = vi_quantity i,
      oi_price = vi_price i\<rparr>"

text \<open>
  Requests on the concrete store: the checkout of user 7; a store whose cart has two lines of
  3 of product 10 (each line passes the pre-check against the stock of 5, the second
  reservation does not); a guest order for 2 of product 10, and one with two items of 3.
\<close>

definition demo_request :: OrderFromCart where
  "demo_request = \<lparr>ofc_address_id = 3, ofc_payment_method = ''cod'', ofc_notes = None,
                    ofc_promo_code = None\<rparr>"

definition demo_two_lines :: session where
  "demo_two_lines =
     \<lparr>committed = demo_tables\<lparr>cart_items := [demo_item\<lparr>ci_quantity := 3\<rparr>,
                                                demo_item\<lparr>ci_quantity := 3\<rparr>]\<rparr>,
      pending = demo_tables\<lparr>cart_items := [demo_item\<lparr>ci_quantity := 3\<rparr>,
                                              demo_item\<lparr>ci_quantity := 3\<rparr>]\<rparr>\<rparr>"

definition demo_guest :: GuestOrderCreate where
  "demo_guest = \<lparr>g_guest_email = ''a@b.c'', g_guest_name = ''Ann'', g_guest_phone = ''12345'',
                  g_items = [\<lparr>oic_product_id = 10, oic_variation_id = None, oic_quantity = 2\<rparr>],
                  g_payment_method = ''cod''\<rparr>"

definition demo_guest_twice :: GuestOrderCreate where
  "demo_guest_twice = demo_guest\<lparr>g_items :=
      [\<lparr>oic_product_id = 10, oic_variation_id = None, oic_quantity = 3\<rparr>,
       \<lparr>oic_product_id = 10, oic_variation_id = None, oic_quantity = 3\<rparr>]\<rparr>"

text \<open>
  What the release loop gives back to a product: the sum of the quantities of the order
  items with that product id.
\<close>

definition released_qty :: "OrderItem list \<Rightarrow> int \<Rightarrow> int" where
  "released_qty items pid =
     sum_list (map oi_quantity (filter (\<lambda>i. oi_product_id i = Some pid) items))"

text \<open>
  Two more stores: order 1 delivered; and order 1 with a second item whose product 11 has no
  row.
\<close>

definition demo_delivered :: session where
  "demo_delivered =
     \<lparr>committed = demo_ordered_tables\<lparr>orders := [1 \<mapsto> demo_order\<lparr>o_status := ''delivered''\<rparr>]\<rparr>,
      pending = demo_ordered_tables\<lparr>orders := [1 \<mapsto> demo_order\<lparr>o_status := ''delivered''\<rparr>]\<rparr>\<rparr>"

definition demo_orphan_item :: OrderItem where
  "demo_orphan_item = \<lparr>oi_order_id = 1, oi_product_id = Some 11, oi_variation_id = None,
                        oi_quantity = 1, oi_price = 40\<rparr>"

definition demo_orphan :: session where
  "demo_orphan =
     \<lparr>committed = demo_ordered_tables\<lparr>order_items :=
                    order_items demo_ordered_tables @ [demo_orphan_item]\<rparr>,
      pending = demo_ordered_tables\<lparr>order_items :=
                    order_items demo_ordered_tables @ [demo_orphan_item]\<rparr>\<rparr>"







section \<open>Properties\<close>

subsection \<open>Amounts in whole cents\<close>

lemma quantize_cents [simp]: "quantize (of_int n / 100) = of_int n / 100"
proof -
  have e: "rat_of_int n / 100 * 100 = rat_of_int n" by simp
  have e': "- (rat_of_int n / 100) * 100 = rat_of_int (- n)" by simp
  have a: "\<lfloor>rat_of_int n + 1 / 2\<rfloor> = n" by linarith
  have b: "\<lfloor>rat_of_int (- n) + 1 / 2\<rfloor> = - n" by linarith
  show ?thesis
    unfolding quantize_def e e' a b by simp
qed

lemma quantize_of_int [simp]: "quantize (of_int n) = of_int n"
  using quantize_cents[of "n * 100"] by simp

lemma quantize_numeral [simp]: "quantize (numeral k) = numeral k"
  using quantize_of_int[of "numeral k"] by simp

lemma quantize_0 [simp]: "quantize 0 = 0"
  using quantize_of_int[of 0] by simp


subsection \<open>Shape of the stock mutations\<close>

lemma ledger_sum_append:
  "ledger_sum (logs @ [entry]) pid
     = ledger_sum logs pid + (if l_product_id entry = pid then l_change_quantity entry else 0)"
  by (simp add: ledger_sum_def)

lemma ledger_consistent_step:
  assumes "ledger_consistent baseline t"
    and "products t pid = Some product"
  shows "ledger_consistent baseline
           (t\<lparr>products := (products t)(pid \<mapsto> product\<lparr>p_stock := p_stock product + d\<rparr>),
              inventory_logs := inventory_logs t @
                [\<lparr>l_product_id = pid, l_change_quantity = d, l_new_stock = n,
                  l_reason = r, l_admin_id = a, l_order_id = oid\<rparr>]\<rparr>)"
  using assms by (simp add: ledger_consistent_def ledger_sum_append)

lemma reserve_stock_Inr:
  assumes "reserve_stock s cart_item order_id = (Inr u, s')"
  shows "\<exists>product. products (pending s) (ci_product_id cart_item) = Some product
           \<and> \<not> p_stock product < ci_quantity cart_item
           \<and> pending s' = (pending s)\<lparr>products := (products (pending s))(ci_product_id cart_item \<mapsto>
                   product\<lparr>p_stock := p_stock product + (- ci_quantity cart_item)\<rparr>),
                 inventory_logs := inventory_logs (pending s) @
                   [\<lparr>l_product_id = ci_product_id cart_item,
                     l_change_quantity = - ci_quantity cart_item,
                     l_new_stock = p_stock product - ci_quantity cart_item,
                     l_reason = ''order_placed'', l_admin_id = None,
                     l_order_id = Some order_id\<rparr>]\<rparr>
           \<and> committed s' = committed s"
  using assms
  by (cases "products (pending s) (ci_product_id cart_item)")
     (auto simp: reserve_stock_def db_write_def Let_def split: if_splits)


lemma reserve_stock_direct_Inr:
  assumes "reserve_stock_direct s pid quantity order_id = (Inr u, s')"
  shows "\<exists>product. products (pending s) pid = Some product
           \<and> \<not> p_stock product < quantity
           \<and> pending s' = (pending s)\<lparr>products := (products (pending s))(pid \<mapsto>
                   product\<lparr>p_stock := p_stock product + (- quantity)\<rparr>),
                 inventory_logs := inventory_logs (pending s) @
                   [\<lparr>l_product_id = pid,
                     l_change_quantity = - quantity,
                     l_new_stock = p_stock product - quantity,
                     l_reason = ''order_placed'', l_admin_id = None,
                     l_order_id = Some order_id\<rparr>]\<rparr>
           \<and> committed s' = committed s"
  using assms
  by (cases "products (pending s) pid")
     (auto simp: reserve_stock_direct_def db_write_def Let_def split: if_splits)

lemma release_stock_Some:
  assumes "products (pending s) pid = Some product"
  shows "pending (release_stock s (Some pid) quantity order_id)
           = (pending s)\<lparr>products := (products (pending s))(pid \<mapsto>
                   product\<lparr>p_stock := p_stock product + quantity\<rparr>),
                 inventory_logs := inventory_logs (pending s) @
                   [\<lparr>l_product_id = pid,
                     l_change_quantity = quantity,
                     l_new_stock = p_stock product + quantity,
                     l_reason = ''order_cancelled'', l_admin_id = None,
                     l_order_id = Some order_id\<rparr>]\<rparr>"
    and "committed (release_stock s (Some pid) quantity order_id) = committed s"
  using assms by (simp_all add: release_stock_def product_by_id_def db_write_def Let_def)

lemma release_stock_missing:
  assumes "product_by_id (pending s) pid = None"
  shows "release_stock s pid quantity order_id = s"
  using assms by (simp add: release_stock_def)

lemma update_stock_Inr:
  assumes "update_stock s pid change_quantity reason admin_id = (Inr product', s')"
  shows "\<exists>product. products (pending s) pid = Some product
           \<and> 0 \<le> p_stock product + change_quantity
           \<and> product' = product\<lparr>p_stock := p_stock product + change_quantity\<rparr>
           \<and> pending s' = (pending s)\<lparr>products := (products (pending s))(pid \<mapsto>
                   product\<lparr>p_stock := p_stock product + change_quantity\<rparr>),
                 inventory_logs := inventory_logs (pending s) @
                   [\<lparr>l_product_id = pid,
                     l_change_quantity = change_quantity,
                     l_new_stock = p_stock product + change_quantity,
                     l_reason = reason, l_admin_id = admin_id,
                     l_order_id = None\<rparr>]\<rparr>
           \<and> committed s' = pending s'"
  using assms
  by (cases "products (pending s) pid")
     (auto simp: update_stock_def db_write_def db_commit_def Let_def split: if_splits)

subsection \<open>C1: ledger consistency\<close>

text \<open>
  Claim C1. After every completed stock mutation (the reservation of order creation, by
  cart line or by product id; the release of a cancellation, for any product id an order
  item may carry; the manual adjustment), every product's stock is its baseline plus the sum of \<^verbatim>\<open>change_quantity\<close> over its ledger entries,
  and the operation appends exactly one entry for its product, whose \<^verbatim>\<open>new_stock\<close> is the
  product's stock after the operation. A release for a product that does not exist writes
  nothing and keeps the invariant.
\<close>

theorem ledger_consistency:
  assumes "ledger_consistent baseline (pending s)"
  shows "(\<forall>s'. reserve_stock s cart_item order_id = (Inr (), s') \<longrightarrow>
            ledger_consistent baseline (pending s')
            \<and> (\<exists>entry product. inventory_logs (pending s') = inventory_logs (pending s) @ [entry]
                  \<and> products (pending s') (ci_product_id cart_item) = Some product
                  \<and> l_product_id entry = ci_product_id cart_item
                  \<and> l_new_stock entry = p_stock product))
       \<and> (\<forall>s'. reserve_stock_direct s pid quantity order_id = (Inr (), s') \<longrightarrow>
            ledger_consistent baseline (pending s')
            \<and> (\<exists>entry product. inventory_logs (pending s') = inventory_logs (pending s) @ [entry]
                  \<and> products (pending s') pid = Some product
                  \<and> l_product_id entry = pid
                  \<and> l_new_stock entry = p_stock product))
       \<and> ledger_consistent baseline (pending (release_stock s released quantity order_id))
       \<and> (products (pending s) pid \<noteq> None \<longrightarrow>
            (\<exists>entry product.
                  inventory_logs (pending (release_stock s (Some pid) quantity order_id))
                    = inventory_logs (pending s) @ [entry]
                  \<and> products (pending (release_stock s (Some pid) quantity order_id)) pid
                      = Some product
                  \<and> l_product_id entry = pid
                  \<and> l_new_stock entry = p_stock product))
       \<and> (\<forall>product s'. update_stock s pid change_quantity reason admin_id = (Inr product, s') \<longrightarrow>
            ledger_consistent baseline (pending s') \<and> ledger_consistent baseline (committed s')
            \<and> (\<exists>entry. inventory_logs (pending s') = inventory_logs (pending s) @ [entry]
                  \<and> products (pending s') pid = Some product
                  \<and> l_product_id entry = pid
                  \<and> l_new_stock entry = p_stock product))"
proof (intro conjI allI impI)
  fix s' assume r: "reserve_stock s cart_item order_id = (Inr (), s')"
  from reserve_stock_Inr[OF r] obtain product where
    p: "products (pending s) (ci_product_id cart_item) = Some product"
    and e: "pending s' = (pending s)\<lparr>products := (products (pending s))(ci_product_id cart_item \<mapsto>
                   product\<lparr>p_stock := p_stock product + (- ci_quantity cart_item)\<rparr>),
                 inventory_logs := inventory_logs (pending s) @
                   [\<lparr>l_product_id = ci_product_id cart_item,
                     l_change_quantity = - ci_quantity cart_item,
                     l_new_stock = p_stock product - ci_quantity cart_item,
                     l_reason = ''order_placed'', l_admin_id = None,
                     l_order_id = Some order_id\<rparr>]\<rparr>"
    by blast
  show "ledger_consistent baseline (pending s')"
    unfolding e by (rule ledger_consistent_step[OF assms p])
  show "\<exists>entry product. inventory_logs (pending s') = inventory_logs (pending s) @ [entry]
                  \<and> products (pending s') (ci_product_id cart_item) = Some product
                  \<and> l_product_id entry = ci_product_id cart_item
                  \<and> l_new_stock entry = p_stock product"
    unfolding e by simp
next
  fix s' assume r: "reserve_stock_direct s pid quantity order_id = (Inr (), s')"
  from reserve_stock_direct_Inr[OF r] obtain product where
    p: "products (pending s) pid = Some product"
    and e: "pending s' = (pending s)\<lparr>products := (products (pending s))(pid \<mapsto>
                   product\<lparr>p_stock := p_stock product + (- quantity)\<rparr>),
                 inventory_logs := inventory_logs (pending s) @
                   [\<lparr>l_product_id = pid,
                     l_change_quantity = - quantity,
                     l_new_stock = p_stock product - quantity,
                     l_reason = ''order_placed'', l_admin_id = None,
                     l_order_id = Some order_id\<rparr>]\<rparr>"
    by blast
  show "ledger_consistent baseline (pending s')"
    unfolding e by (rule ledger_consistent_step[OF assms p])
  show "\<exists>entry product. inventory_logs (pending s') = inventory_logs (pending s) @ [entry]
                  \<and> products (pending s') pid = Some product
                  \<and> l_product_id entry = pid
                  \<and> l_new_stock entry = p_stock product"
    unfolding e by simp
next
  show "ledger_consistent baseline (pending (release_stock s released quantity order_id))"
  proof (cases "product_by_id (pending s) released")
    case None
    then have "release_stock s released quantity order_id = s"
      by (rule release_stock_missing)
    with assms show ?thesis by simp
  next
    case (Some product)
    then obtain p0 where r: "released = Some p0" and p: "products (pending s) p0 = Some product"
      by (cases released) (simp_all add: product_by_id_def)
    show ?thesis
      unfolding r release_stock_Some(1)[OF p]
      by (rule ledger_consistent_step[OF assms p])
  qed
next
  assume "products (pending s) pid \<noteq> None"
  then obtain product where p: "products (pending s) pid = Some product" by blast
  show "\<exists>entry product.
                  inventory_logs (pending (release_stock s (Some pid) quantity order_id))
                    = inventory_logs (pending s) @ [entry]
                  \<and> products (pending (release_stock s (Some pid) quantity order_id)) pid
                      = Some product
                  \<and> l_product_id entry = pid
                  \<and> l_new_stock entry = p_stock product"
    unfolding release_stock_Some(1)[OF p] by simp
next
  fix product' s'
  assume r: "update_stock s pid change_quantity reason admin_id = (Inr product', s')"
  from update_stock_Inr[OF r] obtain product where
    p: "products (pending s) pid = Some product"
    and p': "product' = product\<lparr>p_stock := p_stock product + change_quantity\<rparr>"
    and e: "pending s' = (pending s)\<lparr>products := (products (pending s))(pid \<mapsto>
                   product\<lparr>p_stock := p_stock product + change_quantity\<rparr>),
                 inventory_logs := inventory_logs (pending s) @
                   [\<lparr>l_product_id = pid,
                     l_change_quantity = change_quantity,
                     l_new_stock = p_stock product + change_quantity,
                     l_reason = reason, l_admin_id = admin_id,
                     l_order_id = None\<rparr>]\<rparr>"
    and c: "committed s' = pending s'"
    by blast
  show pc: "ledger_consistent baseline (pending s')"
    unfolding e by (rule ledger_consistent_step[OF assms p])
  show "ledger_consistent baseline (committed s')"
    using pc c by simp
  show "\<exists>entry. inventory_logs (pending s') = inventory_logs (pending s) @ [entry]
                  \<and> products (pending s') pid = Some product'
                  \<and> l_product_id entry = pid
                  \<and> l_new_stock entry = p_stock product'"
    unfolding e p' by simp
qed


lemmas demo_defs = demo_session_def demo_tables_def demo_product_def demo_cart_def demo_item_def
  demo_ordered_def demo_ordered_tables_def demo_order_def

theorem ledger_consistency_witness:
  "ledger_consistent (\<lambda>_. 5) (pending demo_session)
   \<and> fst (reserve_stock demo_session demo_item 1) = Inr ()
   \<and> ledger_consistent (\<lambda>_. 5) (pending (snd (reserve_stock demo_session demo_item 1)))
   \<and> fst (reserve_stock_direct demo_session 10 2 1) = Inr ()
   \<and> ledger_consistent (\<lambda>_. 5) (pending (snd (reserve_stock_direct demo_session 10 2 1)))
   \<and> products (pending demo_session) 10 \<noteq> None
   \<and> ledger_consistent (\<lambda>_. 5) (pending (release_stock demo_session (Some 10) 2 1))
   \<and> fst (update_stock demo_session 10 (- 1) ''damaged'' (Some 99))
        = Inr (demo_product\<lparr>p_stock := 4\<rparr>)
   \<and> ledger_consistent (\<lambda>_. 5)
        (committed (snd (update_stock demo_session 10 (- 1) ''damaged'' (Some 99))))"
proof -
  have h: "ledger_consistent (\<lambda>_. 5) (pending demo_session)"
    by (simp add: ledger_consistent_def ledger_sum_def demo_defs)
  have f1: "fst (reserve_stock demo_session demo_item 1) = Inr ()"
    by (simp add: reserve_stock_def demo_defs Let_def)
  have f2: "fst (reserve_stock_direct demo_session 10 2 1) = Inr ()"
    by (simp add: reserve_stock_direct_def demo_defs Let_def)
  have r3: "products (pending demo_session) 10 \<noteq> None"
    by (simp add: demo_defs)
  have f4: "fst (update_stock demo_session 10 (- 1) ''damaged'' (Some 99))
              = Inr (demo_product\<lparr>p_stock := 4\<rparr>)"
    by (simp add: update_stock_def demo_defs Let_def)
  have r1: "reserve_stock demo_session demo_item 1
              = (Inr (), snd (reserve_stock demo_session demo_item 1))"
    using f1 by (metis prod.collapse)
  have r2: "reserve_stock_direct demo_session 10 2 1
              = (Inr (), snd (reserve_stock_direct demo_session 10 2 1))"
    using f2 by (metis prod.collapse)
  have r4: "update_stock demo_session 10 (- 1) ''damaged'' (Some 99)
              = (Inr (demo_product\<lparr>p_stock := 4\<rparr>),
                 snd (update_stock demo_session 10 (- 1) ''damaged'' (Some 99)))"
    using f4 by (metis prod.collapse)
  note t = ledger_consistency[OF h, where cart_item = demo_item and order_id = 1 and pid = 10
             and quantity = 2 and change_quantity = "- 1" and reason = "''damaged''"
             and admin_id = "Some 99" and released = "Some 10"]
  from t r1 have c1:
    "ledger_consistent (\<lambda>_. 5) (pending (snd (reserve_stock demo_session demo_item 1)))"
    by blast
  from t r2 have c2:
    "ledger_consistent (\<lambda>_. 5) (pending (snd (reserve_stock_direct demo_session 10 2 1)))"
    by blast
  from t have c3:
    "ledger_consistent (\<lambda>_. 5) (pending (release_stock demo_session (Some 10) 2 1))"
    by blast
  from t r4 have c4: "ledger_consistent (\<lambda>_. 5)
        (committed (snd (update_stock demo_session 10 (- 1) ''damaged'' (Some 99))))"
    by blast
  from h f1 c1 f2 c2 r3 c3 f4 c4 show ?thesis by blast
qed

subsection \<open>C2: completeness of the transition table\<close>

text \<open>
  Claim C2. For an existing order in status \<open>src\<close> and any status \<open>dst\<close> that the table of
  section 4.3 does not list for \<open>src\<close>, \<^verbatim>\<open>update_order_status\<close> fails with the
  invalid-transition error and returns the session as it was: the order's status, its
  timestamps and the status history are unchanged, pending and committed.
\<close>

theorem transition_table_complete:
  assumes "orders (pending s) order_id = Some order"
    and "o_status order = OrderStatus_value src"
    and "dst \<notin> set (spec_table src)"
  shows "update_order_status s order_id (OrderStatus_value dst) admin_id notes
           = (Inl (InvalidTransition (OrderStatus_value src) (OrderStatus_value dst)), s)"
  using assms
  unfolding update_order_status_def get_valid_status_transitions_def transitions_def
  by (cases src; cases dst; simp add: Let_def)

theorem transition_table_complete_witness:
  "orders (pending demo_ordered) 1 = Some demo_order
   \<and> o_status demo_order = OrderStatus_value PENDING
   \<and> DELIVERED \<notin> set (spec_table PENDING)
   \<and> update_order_status demo_ordered 1 (OrderStatus_value DELIVERED) 99 None
        = (Inl (InvalidTransition ''pending'' ''delivered''), demo_ordered)"
proof -
  have a: "orders (pending demo_ordered) 1 = Some demo_order"
    by (simp add: demo_defs)
  have b: "o_status demo_order = OrderStatus_value PENDING"
    by (simp add: demo_defs)
  have c: "DELIVERED \<notin> set (spec_table PENDING)" by simp
  from transition_table_complete[OF a b c, of 99 None] a b c show ?thesis by simp
qed


subsection \<open>C7: the cart totals algorithm\<close>



lemma price_of_item_store_cart [simp]:
  "price_of_item (store_cart c t) item = price_of_item t item"
  by (simp add: price_of_item_def store_cart_def)

lemma cart_subtotal_loop_store_cart [simp]:
  "cart_subtotal_loop (store_cart c t) items acc = cart_subtotal_loop t items acc"
  by (induction items arbitrary: acc) (simp_all split: sum.splits)



lemma store_cart_items [simp]: "cart_items (store_cart c t) = cart_items t"
  and store_cart_products [simp]: "products (store_cart c t) = products t"
  by (simp_all add: store_cart_def)









subsection \<open>The reservation loop of order creation\<close>

lemma reserve_reserve [simp]: "reserve a (reserve b p) = reserve (b + a) p"
  by (simp add: reserve_def)

lemma reserve_0 [simp]: "reserve 0 p = p"
  by (simp add: reserve_def)

lemma create_order_item_Inr:
  "create_order_item t order_id i = Inr oi \<Longrightarrow> oi = order_item_of t order_id i"
  by (auto simp: create_order_item_def order_item_of_def line_price_def live_price_def
                 truthy_money_def
           split: option.splits if_splits)

lemma from_cart_loop_Cons_Inr:
  assumes "from_cart_loop s order_id (line # rest) = (Inr u, s')"
  shows "\<exists>product s1.
           create_order_item (pending s) order_id line
             = Inr (order_item_of (pending s) order_id line)
         \<and> products (pending s) (ci_product_id line) = Some product
         \<and> pending s1 = (pending s)\<lparr>
               order_items := order_items (pending s) @ [order_item_of (pending s) order_id line],
               products := (products (pending s))(ci_product_id line \<mapsto>
                             reserve (ci_quantity line) product),
               inventory_logs := inventory_logs (pending s) @
                 [\<lparr>l_product_id = ci_product_id line,
                   l_change_quantity = - ci_quantity line,
                   l_new_stock = p_stock product - ci_quantity line,
                   l_reason = ''order_placed'', l_admin_id = None,
                   l_order_id = Some order_id\<rparr>]\<rparr>
         \<and> committed s1 = committed s
         \<and> from_cart_loop s1 order_id rest = (Inr u, s')"
proof -
  from assms obtain oi where
    c: "create_order_item (pending s) order_id line = Inr oi"
    by (cases "create_order_item (pending s) order_id line") auto
  define s0 where "s0 = db_write (\<lambda>t. t\<lparr>order_items := order_items t @ [oi]\<rparr>) s"
  from assms c obtain u1 s1 where
    r: "reserve_stock s0 line order_id = (Inr u1, s1)"
    and l: "from_cart_loop s1 order_id rest = (Inr u, s')"
    unfolding s0_def
    by (auto split: prod.splits sum.splits)
  have oi: "oi = order_item_of (pending s) order_id line"
    by (rule create_order_item_Inr[OF c])
  from reserve_stock_Inr[OF r] obtain product where
    p: "products (pending s0) (ci_product_id line) = Some product"
    and e: "pending s1 = (pending s0)\<lparr>products := (products (pending s0))(ci_product_id line \<mapsto>
                   product\<lparr>p_stock := p_stock product + (- ci_quantity line)\<rparr>),
                 inventory_logs := inventory_logs (pending s0) @
                   [\<lparr>l_product_id = ci_product_id line,
                     l_change_quantity = - ci_quantity line,
                     l_new_stock = p_stock product - ci_quantity line,
                     l_reason = ''order_placed'', l_admin_id = None,
                     l_order_id = Some order_id\<rparr>]\<rparr>"
    and cm: "committed s1 = committed s0"
    by blast
  have p0: "pending s0 = (pending s)\<lparr>order_items := order_items (pending s) @ [oi]\<rparr>"
    and c0: "committed s0 = committed s"
    by (simp_all add: s0_def db_write_def)
  show ?thesis
    using c p e cm l
    by (intro exI[of _ product] exI[of _ s1]) (simp add: p0 c0 oi reserve_def)
qed

lemma from_cart_loop_Inl_committed:
  "from_cart_loop s order_id lines = (Inl e, s') \<Longrightarrow> committed s' = committed s"
proof (induction lines arbitrary: s)
  case Nil
  then show ?case by simp
next
  case (Cons line rest)
  show ?case
  proof (cases "create_order_item (pending s) order_id line")
    case (Inl a)
    with Cons.prems show ?thesis by simp
  next
    case (Inr oi)
    define s0 where "s0 = db_write (\<lambda>t. t\<lparr>order_items := order_items t @ [oi]\<rparr>) s"
    have c0: "committed s0 = committed s" by (simp add: s0_def db_write_def)
    obtain r s1 where r: "reserve_stock s0 line order_id = (r, s1)" by (cases "reserve_stock s0 line order_id")
    have c1: "committed s1 = committed s0"
      using r by (auto simp: reserve_stock_def db_write_def Let_def split: option.splits if_splits)
    show ?thesis
    proof (cases r)
      case (Inl a)
      with Cons.prems Inr r have "s' = s1" by (simp add: s0_def)
      with c0 c1 show ?thesis by simp
    next
      case (Inr b)
      with Cons.prems \<open>create_order_item (pending s) order_id line = Inr oi\<close> r
      have "from_cart_loop s1 order_id rest = (Inl e, s')" by (simp add: s0_def)
      from Cons.IH[OF this] c0 c1 show ?thesis by simp
    qed
  qed
qed

lemma line_price_cong:
  assumes "\<And>pid. map_option p_price (products t' pid) = map_option p_price (products t pid)"
  shows "line_price t' i = line_price t i"
proof -
  have "live_price t' i = live_price t i"
    using assms[of "ci_product_id i"]
    by (auto simp: live_price_def split: option.splits)
  then show ?thesis by (simp add: line_price_def split: option.splits)
qed

lemma reserved_qty_Cons:
  "reserved_qty (line # rest) pid
     = (if ci_product_id line = pid then ci_quantity line else 0) + reserved_qty rest pid"
  by (simp add: reserved_qty_def)

lemma from_cart_loop_Inr:
  assumes "from_cart_loop s order_id lines = (Inr u, s')"
  shows "committed s' = committed s
       \<and> (\<exists>entries.
             pending s' = (pending s)\<lparr>
               order_items := order_items (pending s) @ map (order_item_of (pending s) order_id) lines,
               products := (\<lambda>pid. map_option (reserve (reserved_qty lines pid))
                                      (products (pending s) pid)),
               inventory_logs := inventory_logs (pending s) @ entries\<rparr>
           \<and> map log_key entries
               = map (\<lambda>i. (ci_product_id i, - ci_quantity i, ''order_placed'', Some order_id)) lines)"
  using assms
proof (induction lines arbitrary: s)
  case Nil
  then show ?case
    by (simp add: reserved_qty_def option.map_ident)
next
  case (Cons line rest)
  from from_cart_loop_Cons_Inr[OF Cons.prems] obtain product s1 where
    p: "products (pending s) (ci_product_id line) = Some product"
    and e: "pending s1 = (pending s)\<lparr>
               order_items := order_items (pending s) @ [order_item_of (pending s) order_id line],
               products := (products (pending s))(ci_product_id line \<mapsto>
                             reserve (ci_quantity line) product),
               inventory_logs := inventory_logs (pending s) @
                 [\<lparr>l_product_id = ci_product_id line,
                   l_change_quantity = - ci_quantity line,
                   l_new_stock = p_stock product - ci_quantity line,
                   l_reason = ''order_placed'', l_admin_id = None,
                   l_order_id = Some order_id\<rparr>]\<rparr>"
    and cm: "committed s1 = committed s"
    and l: "from_cart_loop s1 order_id rest = (Inr u, s')"
    by blast
  from Cons.IH[OF l] obtain entries where
    c': "committed s' = committed s1"
    and e': "pending s' = (pending s1)\<lparr>
               order_items := order_items (pending s1) @ map (order_item_of (pending s1) order_id) rest,
               products := (\<lambda>pid. map_option (reserve (reserved_qty rest pid))
                                      (products (pending s1) pid)),
               inventory_logs := inventory_logs (pending s1) @ entries\<rparr>"
    and k: "map log_key entries
               = map (\<lambda>i. (ci_product_id i, - ci_quantity i, ''order_placed'', Some order_id)) rest"
    by blast
  have price: "\<And>i. order_item_of (pending s1) order_id i = order_item_of (pending s) order_id i"
  proof -
    fix i
    have "line_price (pending s1) i = line_price (pending s) i"
      by (rule line_price_cong) (simp add: e p reserve_def)
    then show "order_item_of (pending s1) order_id i = order_item_of (pending s) order_id i"
      by (simp add: order_item_of_def)
  qed
  have prod: "(\<lambda>pid. map_option (reserve (reserved_qty rest pid)) (products (pending s1) pid))
            = (\<lambda>pid. map_option (reserve (reserved_qty (line # rest) pid))
                        (products (pending s) pid))"
  proof
    fix pid
    show "map_option (reserve (reserved_qty rest pid)) (products (pending s1) pid)
            = map_option (reserve (reserved_qty (line # rest) pid)) (products (pending s) pid)"
      by (cases "pid = ci_product_id line") (simp_all add: e p reserved_qty_Cons)
  qed
  let ?entry = "\<lparr>l_product_id = ci_product_id line,
                   l_change_quantity = - ci_quantity line,
                   l_new_stock = p_stock product - ci_quantity line,
                   l_reason = ''order_placed'', l_admin_id = None,
                   l_order_id = Some order_id\<rparr>"
  have pend: "pending s' = (pending s)\<lparr>
               order_items := order_items (pending s)
                                @ map (order_item_of (pending s) order_id) (line # rest),
               products := (\<lambda>pid. map_option (reserve (reserved_qty (line # rest) pid))
                                      (products (pending s) pid)),
               inventory_logs := inventory_logs (pending s) @ (?entry # entries)\<rparr>"
    unfolding e' prod price by (simp add: e)
  have keys: "map log_key (?entry # entries)
               = map (\<lambda>i. (ci_product_id i, - ci_quantity i, ''order_placed'', Some order_id))
                   (line # rest)"
    using k by (simp add: log_key_def)
  from c' cm have cc: "committed s' = committed s" by simp
  show ?case
    by (intro conjI exI[of _ "?entry # entries"]) (rule cc pend keys)+
qed


subsection \<open>Order creation from a cart\<close>

lemma order_item_of_orders [simp]:
  "order_item_of (t\<lparr>orders := x\<rparr>) order_id i = order_item_of t order_id i"
  by (simp add: order_item_of_def line_price_def live_price_def split: option.splits)

lemma from_cart_try_Inl_committed:
  assumes "from_cart_try s user_id order_data cart new_id order_number now = (Inl e, s')"
  shows "committed s' = committed s"
proof (cases "calculate_order_totals (pending s) (cart_items_of (pending s) cart)")
  case (Inl a)
  with assms show ?thesis by (simp add: from_cart_try_def)
next
  case (Inr totals)
  let ?order = "\<lparr>o_id = new_id, o_user_id = Some user_id,
                  o_address_id = Some (ofc_address_id order_data),
                  o_order_number = order_number, o_total_amount = quantize (t_total totals),
                  o_shipping_cost = quantize (t_shipping totals), o_tax_amount = quantize (t_tax totals),
                  o_discount_amount = 0, o_coupon_code = ofc_promo_code order_data,
                  o_payment_method = ofc_payment_method order_data,
                  o_payment_status = ''pending'', o_status = OrderStatus_value PENDING,
                  o_notes = ofc_notes order_data, o_created_at = now,
                  o_admin_notes = None, o_cancelled_at = None, o_cancelled_by = None,
                  o_cancellation_reason = None\<rparr>"
  let ?s1 = "db_write (\<lambda>t. t\<lparr>orders := (orders t)(new_id \<mapsto> ?order)\<rparr>) s"
  obtain r s2 where l: "from_cart_loop ?s1 new_id (cart_items_of (pending s) cart) = (r, s2)"
    by (cases "from_cart_loop ?s1 new_id (cart_items_of (pending s) cart)")
  from assms Inr l obtain e' where r: "r = Inl e'" and s': "s' = s2"
    by (cases r) (auto simp: from_cart_try_def Let_def)
  from from_cart_loop_Inl_committed[OF l[unfolded r]] s'
  show ?thesis by (simp add: db_write_def)
qed

lemma from_cart_try_Inr:
  assumes "from_cart_try s user_id order_data cart new_id order_number now = (Inr order, s')"
  shows "committed s' = pending s'
       \<and> o_id order = new_id \<and> o_status order = OrderStatus_value PENDING
       \<and> o_user_id order = Some user_id
       \<and> (\<exists>entries.
             pending s' = (pending s)\<lparr>
               orders := (orders (pending s))(new_id \<mapsto> order),
               order_items := order_items (pending s)
                  @ map (order_item_of (pending s) new_id) (cart_items_of (pending s) cart),
               products := (\<lambda>pid. map_option
                              (reserve (reserved_qty (cart_items_of (pending s) cart) pid))
                              (products (pending s) pid)),
               inventory_logs := inventory_logs (pending s) @ entries,
               order_status_history := order_status_history (pending s) @
                  [\<lparr>h_order_id = new_id, h_from_status = None,
                    h_to_status = OrderStatus_value PENDING, h_changed_by = Some user_id,
                    h_notes = None\<rparr>],
               carts := map (\<lambda>c. if c_id c = c_id cart
                                 then cart\<lparr>c_status := CartStatus_value CONVERTED\<rparr> else c)
                          (carts (pending s))\<rparr>
           \<and> map log_key entries
               = map (\<lambda>i. (ci_product_id i, - ci_quantity i, ''order_placed'', Some new_id))
                   (cart_items_of (pending s) cart))"
proof -
  from assms obtain totals where
    t: "calculate_order_totals (pending s) (cart_items_of (pending s) cart) = Inr totals"
    by (cases "calculate_order_totals (pending s) (cart_items_of (pending s) cart)")
       (auto simp: from_cart_try_def)
  let ?order = "\<lparr>o_id = new_id, o_user_id = Some user_id,
                  o_address_id = Some (ofc_address_id order_data),
                  o_order_number = order_number, o_total_amount = quantize (t_total totals),
                  o_shipping_cost = quantize (t_shipping totals), o_tax_amount = quantize (t_tax totals),
                  o_discount_amount = 0, o_coupon_code = ofc_promo_code order_data,
                  o_payment_method = ofc_payment_method order_data,
                  o_payment_status = ''pending'', o_status = OrderStatus_value PENDING,
                  o_notes = ofc_notes order_data, o_created_at = now,
                  o_admin_notes = None, o_cancelled_at = None, o_cancelled_by = None,
                  o_cancellation_reason = None\<rparr>"
  let ?s1 = "db_write (\<lambda>t. t\<lparr>orders := (orders t)(new_id \<mapsto> ?order)\<rparr>) s"
  obtain r s2 where l: "from_cart_loop ?s1 new_id (cart_items_of (pending s) cart) = (r, s2)"
    by (cases "from_cart_loop ?s1 new_id (cart_items_of (pending s) cart)")
  from assms t l obtain u where r: "r = Inr u"
    and o: "order = ?order"
    and s': "s' = db_commit (mark_cart_converted
                 (record_status_change s2 new_id None (OrderStatus_value PENDING)
                    (Some user_id) None) cart)"
    by (cases r) (auto simp: from_cart_try_def Let_def)
  from from_cart_loop_Inr[OF l[unfolded r]] obtain entries where
    e: "pending s2 = (pending ?s1)\<lparr>
               order_items := order_items (pending ?s1)
                  @ map (order_item_of (pending ?s1) new_id) (cart_items_of (pending s) cart),
               products := (\<lambda>pid. map_option
                              (reserve (reserved_qty (cart_items_of (pending s) cart) pid))
                              (products (pending ?s1) pid)),
               inventory_logs := inventory_logs (pending ?s1) @ entries\<rparr>"
    and k: "map log_key entries
               = map (\<lambda>i. (ci_product_id i, - ci_quantity i, ''order_placed'', Some new_id))
                   (cart_items_of (pending s) cart)"
    by blast
  have p1: "pending ?s1 = (pending s)\<lparr>orders := (orders (pending s))(new_id \<mapsto> ?order)\<rparr>"
    by (simp add: db_write_def)
  have c: "committed s' = pending s'"
    by (simp add: s' db_commit_def)
  have pend: "pending s' = (pending s)\<lparr>
               orders := (orders (pending s))(new_id \<mapsto> order),
               order_items := order_items (pending s)
                  @ map (order_item_of (pending s) new_id) (cart_items_of (pending s) cart),
               products := (\<lambda>pid. map_option
                              (reserve (reserved_qty (cart_items_of (pending s) cart) pid))
                              (products (pending s) pid)),
               inventory_logs := inventory_logs (pending s) @ entries,
               order_status_history := order_status_history (pending s) @
                  [\<lparr>h_order_id = new_id, h_from_status = None,
                    h_to_status = OrderStatus_value PENDING, h_changed_by = Some user_id,
                    h_notes = None\<rparr>],
               carts := map (\<lambda>c. if c_id c = c_id cart
                                 then cart\<lparr>c_status := CartStatus_value CONVERTED\<rparr> else c)
                          (carts (pending s))\<rparr>"
    unfolding s' o
    by (simp add: db_commit_def mark_cart_converted_def record_status_change_def
                  db_write_def store_cart_def e p1)
  have f: "o_id order = new_id \<and> o_status order = OrderStatus_value PENDING
           \<and> o_user_id order = Some user_id"
    by (simp add: o)
  show ?thesis
    using c f
    by (intro conjI exI[of _ entries]) (simp_all add: pend k)
qed

lemma create_order_from_cart_cases:
  assumes "create_order_from_cart s user_id order_data new_id order_number now = (r, s')"
  shows "(\<exists>e. r = Inl e \<and> s' = s)
       \<or> (\<exists>cart e s2. get_cart (pending s) (Some user_id) None = Some cart
             \<and> from_cart_try s user_id order_data cart new_id order_number now = (Inl e, s2)
             \<and> r = Inl (CreateOrderFailed e) \<and> s' = db_rollback s2)
       \<or> (\<exists>cart order. get_cart (pending s) (Some user_id) None = Some cart
             \<and> from_cart_try s user_id order_data cart new_id order_number now = (Inr order, s')
             \<and> r = Inr order)"
proof (cases "get_cart (pending s) (Some user_id) None")
  case None
  with assms show ?thesis by (auto simp: create_order_from_cart_def)
next
  case (Some cart)
  obtain r2 s2 where t: "from_cart_try s user_id order_data cart new_id order_number now = (r2, s2)"
    by (cases "from_cart_try s user_id order_data cart new_id order_number now")
  show ?thesis
  proof (cases r2)
    case (Inl e)
    with assms Some t show ?thesis
      by (auto simp: create_order_from_cart_def split: prod.splits if_splits option.splits)
  next
    case (Inr order)
    with assms Some t show ?thesis
      by (auto simp: create_order_from_cart_def split: prod.splits if_splits option.splits)
  qed
qed

lemma rollback_clean:
  assumes "committed s2 = committed s" and "pending s = committed s"
  shows "db_rollback s2 = s"
  using assms by (simp add: db_rollback_def)

subsection \<open>C6: checkout totals against cart totals\<close>







subsection \<open>Guest orders\<close>

lemma direct_qty_Cons:
  "direct_qty (i # rest) pid
     = (if vi_product_id i = pid then vi_quantity i else 0) + direct_qty rest pid"
  by (simp add: direct_qty_def)

lemma guest_loop_Inl_committed:
  "guest_loop s order_id items = (Inl e, s') \<Longrightarrow> committed s' = committed s"
proof (induction items arbitrary: s)
  case Nil
  then show ?case by simp
next
  case (Cons i rest)
  let ?s0 = "db_write (\<lambda>t. t\<lparr>order_items := order_items t @ [guest_item_of order_id i]\<rparr>) s"
  obtain r s1 where r: "reserve_stock_direct ?s0 (vi_product_id i) (vi_quantity i) order_id = (r, s1)"
    by (cases "reserve_stock_direct ?s0 (vi_product_id i) (vi_quantity i) order_id")
  have c1: "committed s1 = committed s"
    using r
    by (auto simp: reserve_stock_direct_def db_write_def Let_def split: option.splits if_splits)
  show ?case
  proof (cases r)
    case (Inl a)
    with Cons.prems r have "s' = s1" by (simp add: Let_def guest_item_of_def)
    with c1 show ?thesis by simp
  next
    case (Inr b)
    with Cons.prems r have "guest_loop s1 order_id rest = (Inl e, s')"
      by (simp add: Let_def guest_item_of_def)
    from Cons.IH[OF this] c1 show ?thesis by simp
  qed
qed

lemma guest_loop_Inr:
  assumes "guest_loop s order_id items = (Inr u, s')"
  shows "committed s' = committed s
       \<and> (\<exists>entries.
             pending s' = (pending s)\<lparr>
               order_items := order_items (pending s) @ map (guest_item_of order_id) items,
               products := (\<lambda>pid. map_option (reserve (direct_qty items pid))
                                      (products (pending s) pid)),
               inventory_logs := inventory_logs (pending s) @ entries\<rparr>
           \<and> map log_key entries
               = map (\<lambda>i. (vi_product_id i, - vi_quantity i, ''order_placed'', Some order_id)) items)"
  using assms
proof (induction items arbitrary: s)
  case Nil
  then show ?case
    by (simp add: direct_qty_def option.map_ident)
next
  case (Cons i rest)
  let ?s0 = "db_write (\<lambda>t. t\<lparr>order_items := order_items t @ [guest_item_of order_id i]\<rparr>) s"
  obtain r s1 where r: "reserve_stock_direct ?s0 (vi_product_id i) (vi_quantity i) order_id = (r, s1)"
    by (cases "reserve_stock_direct ?s0 (vi_product_id i) (vi_quantity i) order_id")
  from Cons.prems r obtain u1 where ru: "r = Inr u1"
    and l: "guest_loop s1 order_id rest = (Inr u, s')"
    by (cases r) (auto simp: Let_def guest_item_of_def)
  from reserve_stock_direct_Inr[OF r[unfolded ru]] obtain product where
    p: "products (pending ?s0) (vi_product_id i) = Some product"
    and e: "pending s1 = (pending ?s0)\<lparr>products := (products (pending ?s0))(vi_product_id i \<mapsto>
                   product\<lparr>p_stock := p_stock product + (- vi_quantity i)\<rparr>),
                 inventory_logs := inventory_logs (pending ?s0) @
                   [\<lparr>l_product_id = vi_product_id i,
                     l_change_quantity = - vi_quantity i,
                     l_new_stock = p_stock product - vi_quantity i,
                     l_reason = ''order_placed'', l_admin_id = None,
                     l_order_id = Some order_id\<rparr>]\<rparr>"
    and cm: "committed s1 = committed ?s0"
    by blast
  from Cons.IH[OF l] obtain entries where
    c': "committed s' = committed s1"
    and e': "pending s' = (pending s1)\<lparr>
               order_items := order_items (pending s1) @ map (guest_item_of order_id) rest,
               products := (\<lambda>pid. map_option (reserve (direct_qty rest pid))
                                      (products (pending s1) pid)),
               inventory_logs := inventory_logs (pending s1) @ entries\<rparr>"
    and k: "map log_key entries
               = map (\<lambda>i. (vi_product_id i, - vi_quantity i, ''order_placed'', Some order_id)) rest"
    by blast
  have p0: "products (pending s) (vi_product_id i) = Some product"
    using p by (simp add: db_write_def)
  have prod: "(\<lambda>pid. map_option (reserve (direct_qty rest pid)) (products (pending s1) pid))
            = (\<lambda>pid. map_option (reserve (direct_qty (i # rest) pid)) (products (pending s) pid))"
  proof
    fix pid
    show "map_option (reserve (direct_qty rest pid)) (products (pending s1) pid)
            = map_option (reserve (direct_qty (i # rest) pid)) (products (pending s) pid)"
      by (cases "pid = vi_product_id i")
         (simp_all add: e p0 direct_qty_Cons db_write_def reserve_def)
  qed
  let ?entry = "\<lparr>l_product_id = vi_product_id i,
                     l_change_quantity = - vi_quantity i,
                     l_new_stock = p_stock product - vi_quantity i,
                     l_reason = ''order_placed'', l_admin_id = None,
                     l_order_id = Some order_id\<rparr>"
  have pend: "pending s' = (pending s)\<lparr>
               order_items := order_items (pending s) @ map (guest_item_of order_id) (i # rest),
               products := (\<lambda>pid. map_option (reserve (direct_qty (i # rest) pid))
                                      (products (pending s) pid)),
               inventory_logs := inventory_logs (pending s) @ (?entry # entries)\<rparr>"
    unfolding e' prod by (simp add: e db_write_def)
  have keys: "map log_key (?entry # entries)
               = map (\<lambda>i. (vi_product_id i, - vi_quantity i, ''order_placed'', Some order_id))
                   (i # rest)"
    using k by (simp add: log_key_def)
  from c' cm have cc: "committed s' = committed s" by (simp add: db_write_def)
  show ?case
    by (intro conjI exI[of _ "?entry # entries"]) (rule cc pend keys)+
qed


subsection \<open>C3: atomicity of order creation\<close>

lemma guest_try_Inl_committed:
  assumes "guest_try s order_data validated_items totals new_id order_number now = (Inl e, s')"
  shows "committed s' = committed s"
proof -
  let ?order = "\<lparr>o_id = new_id, o_user_id = None, o_address_id = None,
                  o_order_number = order_number, o_total_amount = quantize (t_total totals),
                  o_shipping_cost = quantize (t_shipping totals), o_tax_amount = quantize (t_tax totals),
                  o_discount_amount = 0, o_coupon_code = None,
                  o_payment_method = g_payment_method order_data,
                  o_payment_status = ''pending'', o_status = OrderStatus_value PENDING,
                  o_notes = Some (''Guest: '' @ g_guest_name order_data @ '' | ''
                                   @ g_guest_email order_data @ '' | ''
                                   @ g_guest_phone order_data),
                  o_created_at = now,
                  o_admin_notes = None, o_cancelled_at = None, o_cancelled_by = None,
                  o_cancellation_reason = None\<rparr>"
  let ?s1 = "db_write (\<lambda>t. t\<lparr>orders := (orders t)(new_id \<mapsto> ?order)\<rparr>) s"
  obtain r s2 where l: "guest_loop ?s1 new_id validated_items = (r, s2)"
    by (cases "guest_loop ?s1 new_id validated_items")
  from assms l obtain e' where r: "r = Inl e'" and s': "s' = s2"
    by (cases r) (auto simp: guest_try_def Let_def)
  from guest_loop_Inl_committed[OF l[unfolded r]] s'
  show ?thesis by (simp add: db_write_def)
qed

lemma guest_try_Inr:
  assumes "guest_try s order_data validated_items totals new_id order_number now = (Inr order, s')"
  shows "committed s' = pending s'
       \<and> o_id order = new_id \<and> o_status order = OrderStatus_value PENDING
       \<and> o_user_id order = None
       \<and> (\<exists>entries.
             pending s' = (pending s)\<lparr>
               orders := (orders (pending s))(new_id \<mapsto> order),
               order_items := order_items (pending s) @ map (guest_item_of new_id) validated_items,
               products := (\<lambda>pid. map_option (reserve (direct_qty validated_items pid))
                              (products (pending s) pid)),
               inventory_logs := inventory_logs (pending s) @ entries,
               order_status_history := order_status_history (pending s) @
                  [\<lparr>h_order_id = new_id, h_from_status = None,
                    h_to_status = OrderStatus_value PENDING, h_changed_by = None,
                    h_notes = None\<rparr>]\<rparr>
           \<and> map log_key entries
               = map (\<lambda>i. (vi_product_id i, - vi_quantity i, ''order_placed'', Some new_id))
                   validated_items)"
proof -
  let ?order = "\<lparr>o_id = new_id, o_user_id = None, o_address_id = None,
                  o_order_number = order_number, o_total_amount = quantize (t_total totals),
                  o_shipping_cost = quantize (t_shipping totals), o_tax_amount = quantize (t_tax totals),
                  o_discount_amount = 0, o_coupon_code = None,
                  o_payment_method = g_payment_method order_data,
                  o_payment_status = ''pending'', o_status = OrderStatus_value PENDING,
                  o_notes = Some (''Guest: '' @ g_guest_name order_data @ '' | ''
                                   @ g_guest_email order_data @ '' | ''
                                   @ g_guest_phone order_data),
                  o_created_at = now,
                  o_admin_notes = None, o_cancelled_at = None, o_cancelled_by = None,
                  o_cancellation_reason = None\<rparr>"
  let ?s1 = "db_write (\<lambda>t. t\<lparr>orders := (orders t)(new_id \<mapsto> ?order)\<rparr>) s"
  obtain r s2 where l: "guest_loop ?s1 new_id validated_items = (r, s2)"
    by (cases "guest_loop ?s1 new_id validated_items")
  from assms l obtain u where r: "r = Inr u"
    and o: "order = ?order"
    and s': "s' = db_commit (record_status_change s2 new_id None (OrderStatus_value PENDING)
                               None None)"
    by (cases r) (auto simp: guest_try_def Let_def)
  from guest_loop_Inr[OF l[unfolded r]] obtain entries where
    e: "pending s2 = (pending ?s1)\<lparr>
               order_items := order_items (pending ?s1) @ map (guest_item_of new_id) validated_items,
               products := (\<lambda>pid. map_option (reserve (direct_qty validated_items pid))
                              (products (pending ?s1) pid)),
               inventory_logs := inventory_logs (pending ?s1) @ entries\<rparr>"
    and k: "map log_key entries
               = map (\<lambda>i. (vi_product_id i, - vi_quantity i, ''order_placed'', Some new_id))
                   validated_items"
    by blast
  have c: "committed s' = pending s'"
    by (simp add: s' db_commit_def)
  have pend: "pending s' = (pending s)\<lparr>
               orders := (orders (pending s))(new_id \<mapsto> order),
               order_items := order_items (pending s) @ map (guest_item_of new_id) validated_items,
               products := (\<lambda>pid. map_option (reserve (direct_qty validated_items pid))
                              (products (pending s) pid)),
               inventory_logs := inventory_logs (pending s) @ entries,
               order_status_history := order_status_history (pending s) @
                  [\<lparr>h_order_id = new_id, h_from_status = None,
                    h_to_status = OrderStatus_value PENDING, h_changed_by = None,
                    h_notes = None\<rparr>]\<rparr>"
    unfolding s' o
    by (simp add: db_commit_def record_status_change_def db_write_def e)
  have f: "o_id order = new_id \<and> o_status order = OrderStatus_value PENDING
           \<and> o_user_id order = None"
    by (simp add: o)
  show ?thesis
    using c f
    by (intro conjI exI[of _ entries]) (simp_all add: pend k)
qed

lemma create_guest_order_cases:
  assumes "create_guest_order s order_data new_id order_number now = (r, s')"
  shows "(\<exists>e. r = Inl e \<and> s' = s)
       \<or> (\<exists>validated_items totals e s2.
             validate_and_calculate_items (pending s) (g_items order_data)
               = Inr (validated_items, totals)
             \<and> guest_try s order_data validated_items totals new_id order_number now = (Inl e, s2)
             \<and> r = Inl (CreateOrderFailed e) \<and> s' = db_rollback s2)
       \<or> (\<exists>validated_items totals order.
             validate_and_calculate_items (pending s) (g_items order_data)
               = Inr (validated_items, totals)
             \<and> guest_try s order_data validated_items totals new_id order_number now
                 = (Inr order, s')
             \<and> r = Inr order)"
proof (cases "validate_and_calculate_items (pending s) (g_items order_data)")
  case (Inl a)
  with assms show ?thesis by (auto simp: create_guest_order_def)
next
  case (Inr vt)
  obtain validated_items totals where vt: "vt = (validated_items, totals)" by (cases vt)
  obtain r2 s2 where
    t: "guest_try s order_data validated_items totals new_id order_number now = (r2, s2)"
    by (cases "guest_try s order_data validated_items totals new_id order_number now")
  show ?thesis
  proof (cases r2)
    case (Inl e)
    with assms Inr vt t show ?thesis by (auto simp: create_guest_order_def)
  next
    case (Inr order)
    with assms \<open>validate_and_calculate_items (pending s) (g_items order_data) = Inr vt\<close> vt t
    show ?thesis by (auto simp: create_guest_order_def)
  qed
qed

text \<open>
  Claim C3. Both order-creation methods are all-or-nothing. When one fails, what the
  database holds is what it held before the call (stocks, ledger, orders, order items, cart),
  and a session that had nothing uncommitted is returned exactly as it was. When one
  succeeds, the order row, one order item per line, every stock decrement and one ledger
  entry per line (and, for a cart, its conversion) are in the database together: the
  committed tables are the session's tables, which differ from those before the call by
  exactly these rows.
\<close>

theorem order_creation_atomic:
  "(create_order_from_cart s user_id order_data new_id order_number now = (Inl e, s')
      \<longrightarrow> committed s' = committed s \<and> (pending s = committed s \<longrightarrow> s' = s))
   \<and> (create_order_from_cart s user_id order_data new_id order_number now = (Inr order, s')
      \<longrightarrow> (\<exists>cart entries.
             get_cart (pending s) (Some user_id) None = Some cart
           \<and> map log_key entries
               = map (\<lambda>i. (ci_product_id i, - ci_quantity i, ''order_placed'', Some new_id))
                   (cart_items_of (pending s) cart)
           \<and> committed s' = pending s'
           \<and> committed s' = (pending s)\<lparr>
               orders := (orders (pending s))(new_id \<mapsto> order),
               order_items := order_items (pending s)
                  @ map (order_item_of (pending s) new_id) (cart_items_of (pending s) cart),
               products := (\<lambda>pid. map_option
                              (reserve (reserved_qty (cart_items_of (pending s) cart) pid))
                              (products (pending s) pid)),
               inventory_logs := inventory_logs (pending s) @ entries,
               order_status_history := order_status_history (pending s) @
                  [\<lparr>h_order_id = new_id, h_from_status = None,
                    h_to_status = OrderStatus_value PENDING, h_changed_by = Some user_id,
                    h_notes = None\<rparr>],
               carts := map (\<lambda>c. if c_id c = c_id cart
                                 then cart\<lparr>c_status := CartStatus_value CONVERTED\<rparr> else c)
                          (carts (pending s))\<rparr>))
   \<and> (create_guest_order s guest_data new_id order_number now = (Inl e, s')
      \<longrightarrow> committed s' = committed s \<and> (pending s = committed s \<longrightarrow> s' = s))
   \<and> (create_guest_order s guest_data new_id order_number now = (Inr order, s')
      \<longrightarrow> (\<exists>validated_items totals entries.
             validate_and_calculate_items (pending s) (g_items guest_data)
               = Inr (validated_items, totals)
           \<and> map log_key entries
               = map (\<lambda>i. (vi_product_id i, - vi_quantity i, ''order_placed'', Some new_id))
                   validated_items
           \<and> committed s' = pending s'
           \<and> committed s' = (pending s)\<lparr>
               orders := (orders (pending s))(new_id \<mapsto> order),
               order_items := order_items (pending s) @ map (guest_item_of new_id) validated_items,
               products := (\<lambda>pid. map_option (reserve (direct_qty validated_items pid))
                              (products (pending s) pid)),
               inventory_logs := inventory_logs (pending s) @ entries,
               order_status_history := order_status_history (pending s) @
                  [\<lparr>h_order_id = new_id, h_from_status = None,
                    h_to_status = OrderStatus_value PENDING, h_changed_by = None,
                    h_notes = None\<rparr>]\<rparr>))"
proof (intro conjI impI)
  assume a: "create_order_from_cart s user_id order_data new_id order_number now = (Inl e, s')"
  from create_order_from_cart_cases[OF a]
  consider "s' = s"
    | cart e2 s2 where
        "from_cart_try s user_id order_data cart new_id order_number now = (Inl e2, s2)"
        "s' = db_rollback s2"
    by auto
  then have "committed s' = committed s \<and> (pending s = committed s \<longrightarrow> s' = s)"
  proof cases
    case 1
    then show ?thesis by simp
  next
    case 2
    from from_cart_try_Inl_committed[OF 2(1)] have c: "committed s2 = committed s" .
    show ?thesis
      using c rollback_clean[OF c] by (simp add: 2(2) db_rollback_def)
  qed
  then show "committed s' = committed s" and "pending s = committed s \<Longrightarrow> s' = s"
    by simp_all
next
  assume a: "create_order_from_cart s user_id order_data new_id order_number now = (Inr order, s')"
  from create_order_from_cart_cases[OF a] obtain cart where
    g: "get_cart (pending s) (Some user_id) None = Some cart"
    and t: "from_cart_try s user_id order_data cart new_id order_number now = (Inr order, s')"
    by auto
  from from_cart_try_Inr[OF t] obtain entries where
    c: "committed s' = pending s'"
    and p: "pending s' = (pending s)\<lparr>
               orders := (orders (pending s))(new_id \<mapsto> order),
               order_items := order_items (pending s)
                  @ map (order_item_of (pending s) new_id) (cart_items_of (pending s) cart),
               products := (\<lambda>pid. map_option
                              (reserve (reserved_qty (cart_items_of (pending s) cart) pid))
                              (products (pending s) pid)),
               inventory_logs := inventory_logs (pending s) @ entries,
               order_status_history := order_status_history (pending s) @
                  [\<lparr>h_order_id = new_id, h_from_status = None,
                    h_to_status = OrderStatus_value PENDING, h_changed_by = Some user_id,
                    h_notes = None\<rparr>],
               carts := map (\<lambda>c. if c_id c = c_id cart
                                 then cart\<lparr>c_status := CartStatus_value CONVERTED\<rparr> else c)
                          (carts (pending s))\<rparr>"
    and k: "map log_key entries
               = map (\<lambda>i. (ci_product_id i, - ci_quantity i, ''order_placed'', Some new_id))
                   (cart_items_of (pending s) cart)"
    by blast
  have cp: "committed s' = (pending s)\<lparr>
               orders := (orders (pending s))(new_id \<mapsto> order),
               order_items := order_items (pending s)
                  @ map (order_item_of (pending s) new_id) (cart_items_of (pending s) cart),
               products := (\<lambda>pid. map_option
                              (reserve (reserved_qty (cart_items_of (pending s) cart) pid))
                              (products (pending s) pid)),
               inventory_logs := inventory_logs (pending s) @ entries,
               order_status_history := order_status_history (pending s) @
                  [\<lparr>h_order_id = new_id, h_from_status = None,
                    h_to_status = OrderStatus_value PENDING, h_changed_by = Some user_id,
                    h_notes = None\<rparr>],
               carts := map (\<lambda>c. if c_id c = c_id cart
                                 then cart\<lparr>c_status := CartStatus_value CONVERTED\<rparr> else c)
                          (carts (pending s))\<rparr>"
    using c p by simp
  show "\<exists>cart entries.
             get_cart (pending s) (Some user_id) None = Some cart
           \<and> map log_key entries
               = map (\<lambda>i. (ci_product_id i, - ci_quantity i, ''order_placed'', Some new_id))
                   (cart_items_of (pending s) cart)
           \<and> committed s' = pending s'
           \<and> committed s' = (pending s)\<lparr>
               orders := (orders (pending s))(new_id \<mapsto> order),
               order_items := order_items (pending s)
                  @ map (order_item_of (pending s) new_id) (cart_items_of (pending s) cart),
               products := (\<lambda>pid. map_option
                              (reserve (reserved_qty (cart_items_of (pending s) cart) pid))
                              (products (pending s) pid)),
               inventory_logs := inventory_logs (pending s) @ entries,
               order_status_history := order_status_history (pending s) @
                  [\<lparr>h_order_id = new_id, h_from_status = None,
                    h_to_status = OrderStatus_value PENDING, h_changed_by = Some user_id,
                    h_notes = None\<rparr>],
               carts := map (\<lambda>c. if c_id c = c_id cart
                                 then cart\<lparr>c_status := CartStatus_value CONVERTED\<rparr> else c)
                          (carts (pending s))\<rparr>"
    by (intro exI[of _ cart] exI[of _ entries] conjI) (rule g k c cp)+
next
  assume a: "create_guest_order s guest_data new_id order_number now = (Inl e, s')"
  from create_guest_order_cases[OF a]
  consider "s' = s"
    | validated_items totals e2 s2 where
        "guest_try s guest_data validated_items totals new_id order_number now = (Inl e2, s2)"
        "s' = db_rollback s2"
    by auto
  then have "committed s' = committed s \<and> (pending s = committed s \<longrightarrow> s' = s)"
  proof cases
    case 1
    then show ?thesis by simp
  next
    case 2
    from guest_try_Inl_committed[OF 2(1)] have c: "committed s2 = committed s" .
    show ?thesis
      using c rollback_clean[OF c] by (simp add: 2(2) db_rollback_def)
  qed
  then show "committed s' = committed s" and "pending s = committed s \<Longrightarrow> s' = s"
    by simp_all
next
  assume a: "create_guest_order s guest_data new_id order_number now = (Inr order, s')"
  from create_guest_order_cases[OF a] obtain validated_items totals where
    v: "validate_and_calculate_items (pending s) (g_items guest_data)
          = Inr (validated_items, totals)"
    and t: "guest_try s guest_data validated_items totals new_id order_number now
              = (Inr order, s')"
    by auto
  from guest_try_Inr[OF t] obtain entries where
    c: "committed s' = pending s'"
    and p: "pending s' = (pending s)\<lparr>
               orders := (orders (pending s))(new_id \<mapsto> order),
               order_items := order_items (pending s) @ map (guest_item_of new_id) validated_items,
               products := (\<lambda>pid. map_option (reserve (direct_qty validated_items pid))
                              (products (pending s) pid)),
               inventory_logs := inventory_logs (pending s) @ entries,
               order_status_history := order_status_history (pending s) @
                  [\<lparr>h_order_id = new_id, h_from_status = None,
                    h_to_status = OrderStatus_value PENDING, h_changed_by = None,
                    h_notes = None\<rparr>]\<rparr>"
    and k: "map log_key entries
               = map (\<lambda>i. (vi_product_id i, - vi_quantity i, ''order_placed'', Some new_id))
                   validated_items"
    by blast
  have cp: "committed s' = (pending s)\<lparr>
               orders := (orders (pending s))(new_id \<mapsto> order),
               order_items := order_items (pending s) @ map (guest_item_of new_id) validated_items,
               products := (\<lambda>pid. map_option (reserve (direct_qty validated_items pid))
                              (products (pending s) pid)),
               inventory_logs := inventory_logs (pending s) @ entries,
               order_status_history := order_status_history (pending s) @
                  [\<lparr>h_order_id = new_id, h_from_status = None,
                    h_to_status = OrderStatus_value PENDING, h_changed_by = None,
                    h_notes = None\<rparr>]\<rparr>"
    using c p by simp
  show "\<exists>validated_items totals entries.
             validate_and_calculate_items (pending s) (g_items guest_data)
               = Inr (validated_items, totals)
           \<and> map log_key entries
               = map (\<lambda>i. (vi_product_id i, - vi_quantity i, ''order_placed'', Some new_id))
                   validated_items
           \<and> committed s' = pending s'
           \<and> committed s' = (pending s)\<lparr>
               orders := (orders (pending s))(new_id \<mapsto> order),
               order_items := order_items (pending s) @ map (guest_item_of new_id) validated_items,
               products := (\<lambda>pid. map_option (reserve (direct_qty validated_items pid))
                              (products (pending s) pid)),
               inventory_logs := inventory_logs (pending s) @ entries,
               order_status_history := order_status_history (pending s) @
                  [\<lparr>h_order_id = new_id, h_from_status = None,
                    h_to_status = OrderStatus_value PENDING, h_changed_by = None,
                    h_notes = None\<rparr>]\<rparr>"
    by (intro exI[of _ validated_items] exI[of _ totals] exI[of _ entries] conjI)
       (rule v k c cp)+
qed

theorem order_creation_atomic_witness:
  "fst (create_order_from_cart demo_two_lines 7 demo_request 1 ''ORD-1'' 0)
     = Inl (CreateOrderFailed (InsufficientStock 10))
   \<and> snd (create_order_from_cart demo_two_lines 7 demo_request 1 ''ORD-1'' 0) = demo_two_lines
   \<and> fst (create_order_from_cart demo_session 7 demo_request 1 ''ORD-1'' 0) = Inr demo_order
   \<and> committed (snd (create_order_from_cart demo_session 7 demo_request 1 ''ORD-1'' 0))
       = pending (snd (create_order_from_cart demo_session 7 demo_request 1 ''ORD-1'' 0))
   \<and> fst (create_guest_order demo_session demo_guest_twice 1 ''ORD-1'' 0)
       = Inl (CreateOrderFailed (InsufficientStock 10))
   \<and> snd (create_guest_order demo_session demo_guest_twice 1 ''ORD-1'' 0) = demo_session
   \<and> \<not> isl (fst (create_guest_order demo_session demo_guest 1 ''ORD-1'' 0))
   \<and> committed (snd (create_guest_order demo_session demo_guest 1 ''ORD-1'' 0))
       = pending (snd (create_guest_order demo_session demo_guest 1 ''ORD-1'' 0))"
proof -
  have f1: "fst (create_order_from_cart demo_two_lines 7 demo_request 1 ''ORD-1'' 0)
              = Inl (CreateOrderFailed (InsufficientStock 10))"
    by code_simp
  have f2: "fst (create_order_from_cart demo_session 7 demo_request 1 ''ORD-1'' 0)
              = Inr demo_order"
    by code_simp
  have f3: "fst (create_guest_order demo_session demo_guest_twice 1 ''ORD-1'' 0)
              = Inl (CreateOrderFailed (InsufficientStock 10))"
    by code_simp
  have f4: "\<not> isl (fst (create_guest_order demo_session demo_guest 1 ''ORD-1'' 0))"
    by code_simp
  have c1: "pending demo_two_lines = committed demo_two_lines"
    by (simp add: demo_two_lines_def)
  have c2: "pending demo_session = committed demo_session"
    by (simp add: demo_session_def)
  have r1: "create_order_from_cart demo_two_lines 7 demo_request 1 ''ORD-1'' 0
              = (Inl (CreateOrderFailed (InsufficientStock 10)),
                 snd (create_order_from_cart demo_two_lines 7 demo_request 1 ''ORD-1'' 0))"
    using f1 by (metis prod.collapse)
  have r2: "create_order_from_cart demo_session 7 demo_request 1 ''ORD-1'' 0
              = (Inr demo_order,
                 snd (create_order_from_cart demo_session 7 demo_request 1 ''ORD-1'' 0))"
    using f2 by (metis prod.collapse)
  have r3: "create_guest_order demo_session demo_guest_twice 1 ''ORD-1'' 0
              = (Inl (CreateOrderFailed (InsufficientStock 10)),
                 snd (create_guest_order demo_session demo_guest_twice 1 ''ORD-1'' 0))"
    using f3 by (metis prod.collapse)
  from f4 obtain order where r4: "create_guest_order demo_session demo_guest 1 ''ORD-1'' 0
              = (Inr order, snd (create_guest_order demo_session demo_guest 1 ''ORD-1'' 0))"
    by (cases "fst (create_guest_order demo_session demo_guest 1 ''ORD-1'' 0)")
       (simp_all, metis prod.collapse)
  have a1: "snd (create_order_from_cart demo_two_lines 7 demo_request 1 ''ORD-1'' 0)
              = demo_two_lines"
    using order_creation_atomic[where s = demo_two_lines and user_id = 7
            and order_data = demo_request and new_id = 1 and order_number = "''ORD-1''"
            and now = 0 and e = "CreateOrderFailed (InsufficientStock 10)"
            and s' = "snd (create_order_from_cart demo_two_lines 7 demo_request 1 ''ORD-1'' 0)"]
          r1 c1
    by blast
  have a2: "committed (snd (create_order_from_cart demo_session 7 demo_request 1 ''ORD-1'' 0))
       = pending (snd (create_order_from_cart demo_session 7 demo_request 1 ''ORD-1'' 0))"
    using order_creation_atomic[where s = demo_session and user_id = 7
            and order_data = demo_request and new_id = 1 and order_number = "''ORD-1''"
            and now = 0 and order = demo_order
            and s' = "snd (create_order_from_cart demo_session 7 demo_request 1 ''ORD-1'' 0)"]
          r2
    by blast
  have a3: "snd (create_guest_order demo_session demo_guest_twice 1 ''ORD-1'' 0) = demo_session"
    using order_creation_atomic[where s = demo_session and guest_data = demo_guest_twice
            and new_id = 1 and order_number = "''ORD-1''"
            and now = 0 and e = "CreateOrderFailed (InsufficientStock 10)"
            and s' = "snd (create_guest_order demo_session demo_guest_twice 1 ''ORD-1'' 0)"]
          r3 c2
    by blast
  have a4: "committed (snd (create_guest_order demo_session demo_guest 1 ''ORD-1'' 0))
       = pending (snd (create_guest_order demo_session demo_guest 1 ''ORD-1'' 0))"
    using order_creation_atomic[where s = demo_session and guest_data = demo_guest
            and new_id = 1 and order_number = "''ORD-1''"
            and now = 0 and order = order
            and s' = "snd (create_guest_order demo_session demo_guest 1 ''ORD-1'' 0)"]
          r4
    by blast
  from f1 a1 f2 a2 f3 a3 f4 a4 show ?thesis by blast
qed


subsection \<open>The release loop of cancellation\<close>

lemma map_option_reserve_0 [simp]: "map_option (reserve 0) x = x"
  by (cases x) simp_all

lemma released_qty_Cons:
  "released_qty (i # rest) pid
     = (if oi_product_id i = Some pid then oi_quantity i else 0) + released_qty rest pid"
  by (simp add: released_qty_def)

lemma release_loop_result:
  "committed (release_loop s order_id items) = committed s
   \<and> (\<exists>entries.
         pending (release_loop s order_id items) = (pending s)\<lparr>
           products := (\<lambda>pid. map_option (reserve (- released_qty items pid))
                                  (products (pending s) pid)),
           inventory_logs := inventory_logs (pending s) @ entries\<rparr>
       \<and> map log_key entries
           = map (\<lambda>i. (the (oi_product_id i), oi_quantity i, ''order_cancelled'', Some order_id))
               (filter (\<lambda>i. product_by_id (pending s) (oi_product_id i) \<noteq> None) items))"
proof (induction items arbitrary: s)
  case Nil
  show ?case by (simp add: released_qty_def option.map_ident)
next
  case (Cons i rest)
  let ?s1 = "release_stock s (oi_product_id i) (oi_quantity i) order_id"
  from Cons.IH[of ?s1] obtain entries where
    c': "committed (release_loop ?s1 order_id rest) = committed ?s1"
    and e': "pending (release_loop ?s1 order_id rest) = (pending ?s1)\<lparr>
           products := (\<lambda>pid. map_option (reserve (- released_qty rest pid))
                                  (products (pending ?s1) pid)),
           inventory_logs := inventory_logs (pending ?s1) @ entries\<rparr>"
    and k: "map log_key entries
           = map (\<lambda>i. (the (oi_product_id i), oi_quantity i, ''order_cancelled'', Some order_id))
               (filter (\<lambda>i. product_by_id (pending ?s1) (oi_product_id i) \<noteq> None) rest)"
    by blast
  show ?case
  proof (cases "product_by_id (pending s) (oi_product_id i)")
    case None
    then have s1: "?s1 = s" by (rule release_stock_missing)
    have prod: "(\<lambda>pid. map_option (reserve (- released_qty rest pid)) (products (pending s) pid))
              = (\<lambda>pid. map_option (reserve (- released_qty (i # rest) pid))
                          (products (pending s) pid))"
    proof
      fix pid
      show "map_option (reserve (- released_qty rest pid)) (products (pending s) pid)
              = map_option (reserve (- released_qty (i # rest) pid)) (products (pending s) pid)"
        using None
        by (cases "oi_product_id i = Some pid")
           (auto simp: released_qty_Cons product_by_id_def)
    qed
    have pend: "pending (release_loop s order_id (i # rest)) = (pending s)\<lparr>
           products := (\<lambda>pid. map_option (reserve (- released_qty (i # rest) pid))
                                  (products (pending s) pid)),
           inventory_logs := inventory_logs (pending s) @ entries\<rparr>"
      using e' by (simp add: s1 prod)
    have keys: "map log_key entries
           = map (\<lambda>i. (the (oi_product_id i), oi_quantity i, ''order_cancelled'', Some order_id))
               (filter (\<lambda>i. product_by_id (pending s) (oi_product_id i) \<noteq> None) (i # rest))"
      using k None by (simp add: s1)
    have cc: "committed (release_loop s order_id (i # rest)) = committed s"
      using c' by (simp add: s1)
    show ?thesis
      by (intro conjI exI[of _ entries]) (rule cc pend keys)+
  next
    case (Some product)
    then obtain p0 where p0: "oi_product_id i = Some p0"
      and pr: "products (pending s) p0 = Some product"
      by (cases "oi_product_id i") (simp_all add: product_by_id_def)
    let ?entry = "\<lparr>l_product_id = p0, l_change_quantity = oi_quantity i,
                     l_new_stock = p_stock product + oi_quantity i,
                     l_reason = ''order_cancelled'', l_admin_id = None,
                     l_order_id = Some order_id\<rparr>"
    have p1: "pending ?s1 = (pending s)\<lparr>products := (products (pending s))(p0 \<mapsto>
                   product\<lparr>p_stock := p_stock product + oi_quantity i\<rparr>),
                 inventory_logs := inventory_logs (pending s) @ [?entry]\<rparr>"
      and c1: "committed ?s1 = committed s"
      unfolding p0 by (rule release_stock_Some[OF pr])+
    note p1' = p1[unfolded p0]
    have dom: "\<And>x. (product_by_id (pending ?s1) x \<noteq> None)
                   = (product_by_id (pending s) x \<noteq> None)"
      by (simp add: p1 p1' product_by_id_def pr split: option.splits)
    have dom2: "\<And>x. (\<exists>y. product_by_id
                 (pending (release_stock s (Some p0) (oi_quantity i) order_id)) x = Some y)
                   = (\<exists>y. product_by_id (pending s) x = Some y)"
      by (simp add: p1' product_by_id_def pr split: option.splits)
    have prod: "(\<lambda>pid. map_option (reserve (- released_qty rest pid)) (products (pending ?s1) pid))
              = (\<lambda>pid. map_option (reserve (- released_qty (i # rest) pid))
                          (products (pending s) pid))"
    proof
      fix pid
      show "map_option (reserve (- released_qty rest pid)) (products (pending ?s1) pid)
              = map_option (reserve (- released_qty (i # rest) pid)) (products (pending s) pid)"
        by (cases "pid = p0") (simp_all add: p1 p1' pr p0 released_qty_Cons reserve_def)
    qed
    have pend: "pending (release_loop s order_id (i # rest)) = (pending s)\<lparr>
           products := (\<lambda>pid. map_option (reserve (- released_qty (i # rest) pid))
                                  (products (pending s) pid)),
           inventory_logs := inventory_logs (pending s) @ (?entry # entries)\<rparr>"
      using e' unfolding prod by (simp add: p1 p1')
    have keys: "map log_key (?entry # entries)
           = map (\<lambda>i. (the (oi_product_id i), oi_quantity i, ''order_cancelled'', Some order_id))
               (filter (\<lambda>i. product_by_id (pending s) (oi_product_id i) \<noteq> None) (i # rest))"
      using k Some by (simp add: dom dom2 log_key_def p0)
    have cc: "committed (release_loop s order_id (i # rest)) = committed s"
      using c' c1 by simp
    show ?thesis
      by (intro conjI exI[of _ "?entry # entries"]) (rule cc pend keys)+
  qed
qed


subsection \<open>Cancellation\<close>

lemma cancel_order_success:
  assumes o: "orders (pending s) order_id = Some order"
    and own: "is_admin \<or> o_user_id order = Some user_id"
    and canc: "is_cancellable order"
    and win: "is_admin \<or> \<not> hours_since_order now order > of_int ORDER_CANCELLATION_WINDOW_HOURS"
  shows "\<exists>s' entries.
           cancel_order s order_id user_id reason is_admin now
             = (Inr (order\<lparr>o_status := OrderStatus_value CANCELLED,
                            o_cancelled_at := Some now,
                            o_cancelled_by := Some user_id,
                            o_cancellation_reason := reason\<rparr>), s')
         \<and> committed s' = pending s'
         \<and> pending s' = (pending s)\<lparr>
               products := (\<lambda>pid. map_option
                              (reserve (- released_qty (order_items_of (pending s) order) pid))
                              (products (pending s) pid)),
               inventory_logs := inventory_logs (pending s) @ entries,
               orders := (orders (pending s))(order_id \<mapsto>
                            order\<lparr>o_status := OrderStatus_value CANCELLED\<rparr>),
               order_status_history := order_status_history (pending s) @
                  [\<lparr>h_order_id = o_id order, h_from_status = Some (o_status order),
                    h_to_status = OrderStatus_value CANCELLED, h_changed_by = Some user_id,
                    h_notes = reason\<rparr>]\<rparr>
         \<and> map log_key entries
             = map (\<lambda>i. (the (oi_product_id i), oi_quantity i, ''order_cancelled'',
                         Some (o_id order)))
                 (filter (\<lambda>i. product_by_id (pending s) (oi_product_id i) \<noteq> None)
                    (order_items_of (pending s) order))"
proof -
  let ?items = "order_items_of (pending s) order"
  let ?s1 = "release_loop s (o_id order) ?items"
  let ?s' = "db_commit (record_status_change
               (db_write (\<lambda>t. t\<lparr>orders := (orders t)(order_id \<mapsto>
                             order\<lparr>o_status := OrderStatus_value CANCELLED\<rparr>)\<rparr>) ?s1)
               (o_id order) (Some (o_status order)) (OrderStatus_value CANCELLED)
               (Some user_id) reason)"
  have r: "cancel_order s order_id user_id reason is_admin now
             = (Inr (order\<lparr>o_status := OrderStatus_value CANCELLED,
                            o_cancelled_at := Some now,
                            o_cancelled_by := Some user_id,
                            o_cancellation_reason := reason\<rparr>), ?s')"
    using own canc win by (auto simp: cancel_order_def o Let_def)
  from release_loop_result[of s "o_id order" ?items] obtain entries where
    e: "pending ?s1 = (pending s)\<lparr>
           products := (\<lambda>pid. map_option (reserve (- released_qty ?items pid))
                                  (products (pending s) pid)),
           inventory_logs := inventory_logs (pending s) @ entries\<rparr>"
    and k: "map log_key entries
           = map (\<lambda>i. (the (oi_product_id i), oi_quantity i, ''order_cancelled'',
                       Some (o_id order)))
               (filter (\<lambda>i. product_by_id (pending s) (oi_product_id i) \<noteq> None) ?items)"
    by blast
  have c: "committed ?s' = pending ?s'"
    by (simp add: db_commit_def)
  have p: "pending ?s' = (pending s)\<lparr>
               products := (\<lambda>pid. map_option (reserve (- released_qty ?items pid))
                              (products (pending s) pid)),
               inventory_logs := inventory_logs (pending s) @ entries,
               orders := (orders (pending s))(order_id \<mapsto>
                            order\<lparr>o_status := OrderStatus_value CANCELLED\<rparr>),
               order_status_history := order_status_history (pending s) @
                  [\<lparr>h_order_id = o_id order, h_from_status = Some (o_status order),
                    h_to_status = OrderStatus_value CANCELLED, h_changed_by = Some user_id,
                    h_notes = reason\<rparr>]\<rparr>"
    by (simp add: db_commit_def record_status_change_def db_write_def e)
  show ?thesis
    by (intro exI[of _ ?s'] exI[of _ entries] conjI) (rule r c p k)+
qed


lemma window_seconds:
  "(hours_since_order now order > of_int ORDER_CANCELLATION_WINDOW_HOURS)
     = (now - o_created_at order > 24 * 3600)"
proof -
  have "(rat_of_int (now - o_created_at order) / 3600 > 24)
          = (rat_of_int (now - o_created_at order) > rat_of_int (24 * 3600))"
    by (simp add: field_simps)
  also have "\<dots> = (now - o_created_at order > 24 * 3600)"
    by (simp only: of_int_less_iff)
  finally show ?thesis
    by (simp add: hours_since_order_def ORDER_CANCELLATION_WINDOW_HOURS_def)
qed

subsection \<open>C9: preconditions of cancellation\<close>

text \<open>
  Claim C9, as amended. For an existing order: an actor who is neither an admin nor the
  order's owner fails with Forbidden, whatever the status. An admin or the owner fails with
  NotCancellable unless the status is pending, confirmed or processing. The owner, not an
  admin, of such an order fails with WindowExpired once more than 24 hours have passed since
  its creation. In each of these failures the session, and so the order, is unchanged.
  Otherwise - an admin at any time, the owner within the window - the cancellation
  succeeds, the order is cancelled, and every product gets back the quantities of the
  order's items.
\<close>

theorem cancel_preconditions:
  assumes "orders (pending s) order_id = Some order"
  shows "(\<not> is_admin \<and> o_user_id order \<noteq> Some user_id
            \<longrightarrow> cancel_order s order_id user_id reason is_admin now = (Inl Forbidden, s))
       \<and> ((is_admin \<or> o_user_id order = Some user_id)
            \<and> o_status order \<notin> {''pending'', ''confirmed'', ''processing''}
            \<longrightarrow> cancel_order s order_id user_id reason is_admin now
                  = (Inl (NotCancellable (o_status order)), s))
       \<and> (\<not> is_admin \<and> o_user_id order = Some user_id
            \<and> o_status order \<in> {''pending'', ''confirmed'', ''processing''}
            \<and> now - o_created_at order > 24 * 3600
            \<longrightarrow> cancel_order s order_id user_id reason is_admin now = (Inl WindowExpired, s))
       \<and> (o_status order \<in> {''pending'', ''confirmed'', ''processing''}
            \<and> (is_admin \<or> (o_user_id order = Some user_id
                             \<and> now - o_created_at order \<le> 24 * 3600))
            \<longrightarrow> (\<exists>order' s'.
                    cancel_order s order_id user_id reason is_admin now = (Inr order', s')
                  \<and> o_status order' = ''cancelled''
                  \<and> (\<forall>pid. products (committed s') pid
                        = map_option
                            (reserve (- released_qty (order_items_of (pending s) order) pid))
                            (products (pending s) pid))))"
proof (intro conjI impI)
  assume "\<not> is_admin \<and> o_user_id order \<noteq> Some user_id"
  then show "cancel_order s order_id user_id reason is_admin now = (Inl Forbidden, s)"
    by (simp add: cancel_order_def assms)
next
  assume "(is_admin \<or> o_user_id order = Some user_id)
            \<and> o_status order \<notin> {''pending'', ''confirmed'', ''processing''}"
  then show "cancel_order s order_id user_id reason is_admin now
               = (Inl (NotCancellable (o_status order)), s)"
    by (auto simp: cancel_order_def assms is_cancellable_def)
next
  assume a: "\<not> is_admin \<and> o_user_id order = Some user_id
            \<and> o_status order \<in> {''pending'', ''confirmed'', ''processing''}
            \<and> now - o_created_at order > 24 * 3600"
  then have "is_cancellable order" by (auto simp: is_cancellable_def)
  with a show "cancel_order s order_id user_id reason is_admin now = (Inl WindowExpired, s)"
    by (simp add: cancel_order_def assms window_seconds)
next
  assume a: "o_status order \<in> {''pending'', ''confirmed'', ''processing''}
            \<and> (is_admin \<or> (o_user_id order = Some user_id
                             \<and> now - o_created_at order \<le> 24 * 3600))"
  then have c: "is_cancellable order" by (auto simp: is_cancellable_def)
  from a have own: "is_admin \<or> o_user_id order = Some user_id" by blast
  from a have win: "is_admin \<or> \<not> hours_since_order now order
                                     > of_int ORDER_CANCELLATION_WINDOW_HOURS"
    by (auto simp: window_seconds)
  from cancel_order_success[OF assms own c win, of reason] obtain s' entries where
    r: "cancel_order s order_id user_id reason is_admin now
             = (Inr (order\<lparr>o_status := OrderStatus_value CANCELLED,
                            o_cancelled_at := Some now,
                            o_cancelled_by := Some user_id,
                            o_cancellation_reason := reason\<rparr>), s')"
    and cm: "committed s' = pending s'"
    and p: "pending s' = (pending s)\<lparr>
               products := (\<lambda>pid. map_option
                              (reserve (- released_qty (order_items_of (pending s) order) pid))
                              (products (pending s) pid)),
               inventory_logs := inventory_logs (pending s) @ entries,
               orders := (orders (pending s))(order_id \<mapsto>
                            order\<lparr>o_status := OrderStatus_value CANCELLED\<rparr>),
               order_status_history := order_status_history (pending s) @
                  [\<lparr>h_order_id = o_id order, h_from_status = Some (o_status order),
                    h_to_status = OrderStatus_value CANCELLED, h_changed_by = Some user_id,
                    h_notes = reason\<rparr>]\<rparr>"
    by blast
  have pr: "\<forall>pid. products (committed s') pid
              = map_option (reserve (- released_qty (order_items_of (pending s) order) pid))
                  (products (pending s) pid)"
    by (simp add: cm p)
  show "\<exists>order' s'.
          cancel_order s order_id user_id reason is_admin now = (Inr order', s')
        \<and> o_status order' = ''cancelled''
        \<and> (\<forall>pid. products (committed s') pid
              = map_option (reserve (- released_qty (order_items_of (pending s) order) pid))
                  (products (pending s) pid))"
    using r pr
    by (intro exI[of _ "order\<lparr>o_status := OrderStatus_value CANCELLED,
                            o_cancelled_at := Some now,
                            o_cancelled_by := Some user_id,
                            o_cancellation_reason := reason\<rparr>"] exI[of _ s'])
       simp
qed

theorem cancel_preconditions_witness:
  "orders (pending demo_ordered) 1 = Some demo_order
   \<and> fst (cancel_order demo_ordered 1 8 None False 0) = Inl Forbidden
   \<and> orders (pending demo_delivered) 1 = Some (demo_order\<lparr>o_status := ''delivered''\<rparr>)
   \<and> fst (cancel_order demo_delivered 1 7 None False 0) = Inl (NotCancellable ''delivered'')
   \<and> cancel_order demo_ordered 1 7 None False 90000 = (Inl WindowExpired, demo_ordered)
   \<and> (\<exists>order' s'. cancel_order demo_ordered 1 99 None True 90000 = (Inr order', s')
         \<and> o_status order' = ''cancelled''
         \<and> map_option p_stock (products (committed s') 10) = Some 5)"
proof -
  have o1: "orders (pending demo_ordered) 1 = Some demo_order"
    by code_simp
  have o2: "orders (pending demo_delivered) 1 = Some (demo_order\<lparr>o_status := ''delivered''\<rparr>)"
    by code_simp
  note t1 = cancel_preconditions[OF o1]
  note t2 = cancel_preconditions[OF o2]
  have a: "fst (cancel_order demo_ordered 1 8 None False 0) = Inl Forbidden"
  proof -
    have "\<not> False \<and> o_user_id demo_order \<noteq> Some 8" by code_simp
    with t1[of False 8 None 0] show ?thesis by simp
  qed
  have b: "fst (cancel_order demo_delivered 1 7 None False 0) = Inl (NotCancellable ''delivered'')"
  proof -
    have "(False \<or> o_user_id (demo_order\<lparr>o_status := ''delivered''\<rparr>) = Some 7)
            \<and> o_status (demo_order\<lparr>o_status := ''delivered''\<rparr>)
                \<notin> {''pending'', ''confirmed'', ''processing''}"
      by (simp add: demo_order_def)
    with t2[of False 7 None 0] show ?thesis by simp
  qed
  have c: "cancel_order demo_ordered 1 7 None False 90000 = (Inl WindowExpired, demo_ordered)"
  proof -
    have "\<not> False \<and> o_user_id demo_order = Some 7
            \<and> o_status demo_order \<in> {''pending'', ''confirmed'', ''processing''}
            \<and> 90000 - o_created_at demo_order > 24 * 3600"
      by (simp add: demo_order_def)
    with t1[of False 7 None 90000] show ?thesis by blast
  qed
  have d: "\<exists>order' s'. cancel_order demo_ordered 1 99 None True 90000 = (Inr order', s')
         \<and> o_status order' = ''cancelled''
         \<and> map_option p_stock (products (committed s') 10) = Some 5"
  proof -
    have h: "o_status demo_order \<in> {''pending'', ''confirmed'', ''processing''}
            \<and> (True \<or> (o_user_id demo_order = Some 99
                             \<and> 90000 - o_created_at demo_order \<le> 24 * 3600))"
      by (simp add: demo_order_def)
    from t1[of True 99 None 90000] h obtain order' s' where
      r: "cancel_order demo_ordered 1 99 None True 90000 = (Inr order', s')"
      and st: "o_status order' = ''cancelled''"
      and pr: "\<forall>pid. products (committed s') pid
                 = map_option
                     (reserve (- released_qty (order_items_of (pending demo_ordered) demo_order) pid))
                     (products (pending demo_ordered) pid)"
      by blast
    have "map_option p_stock
            (map_option
               (reserve (- released_qty (order_items_of (pending demo_ordered) demo_order) 10))
               (products (pending demo_ordered) 10)) = Some 5"
      by code_simp
    with pr have "map_option p_stock (products (committed s') 10) = Some 5" by simp
    with r st show ?thesis by blast
  qed
  from o1 a o2 b c d show ?thesis by blast
qed

text \<open>
  Claim C9 as stated fails for an actor who does not own the order: user 8, not an admin,
  cancelling the delivered order of user 7 gets Forbidden, not NotCancellable.
\<close>

theorem cancel_preconditions_counterexample:
  "orders (pending demo_delivered) 1 = Some (demo_order\<lparr>o_status := ''delivered''\<rparr>)
   \<and> \<not> is_cancellable (demo_order\<lparr>o_status := ''delivered''\<rparr>)
   \<and> fst (cancel_order demo_delivered 1 8 None False 0) = Inl Forbidden
   \<and> fst (cancel_order demo_delivered 1 8 None False 0) \<noteq> Inl (NotCancellable ''delivered'')"
  by code_simp


subsection \<open>C10: an order item whose product is gone\<close>

text \<open>
  Claim C10. When a cancellable order has an item whose product id matches no product, a
  cancellation that passes the ownership and window checks still succeeds: the returned order
  is CANCELLED and carries the cancellation metadata, the stored row is CANCELLED, one history
  row is appended, and the ledger gets entries only for the items whose product exists, so
  fewer entries than items; nothing is written for the missing product, which stays missing,
  and no error reports the skipped release.
\<close>

theorem cancel_skips_missing_product:
  assumes "orders (pending s) order_id = Some order"
    and "is_admin \<or> o_user_id order = Some user_id"
    and "is_cancellable order"
    and "is_admin \<or> \<not> hours_since_order now order > of_int ORDER_CANCELLATION_WINDOW_HOURS"
    and "item \<in> set (order_items_of (pending s) order)"
    and "product_by_id (pending s) (oi_product_id item) = None"
  shows "\<exists>order' s' entries.
           cancel_order s order_id user_id reason is_admin now = (Inr order', s')
         \<and> o_status order' = OrderStatus_value CANCELLED
         \<and> o_cancelled_at order' = Some now
         \<and> o_cancelled_by order' = Some user_id
         \<and> o_cancellation_reason order' = reason
         \<and> orders (committed s') order_id
             = Some (order\<lparr>o_status := OrderStatus_value CANCELLED\<rparr>)
         \<and> order_status_history (committed s')
             = order_status_history (pending s) @
                 [\<lparr>h_order_id = o_id order, h_from_status = Some (o_status order),
                   h_to_status = OrderStatus_value CANCELLED, h_changed_by = Some user_id,
                   h_notes = reason\<rparr>]
         \<and> inventory_logs (committed s') = inventory_logs (pending s) @ entries
         \<and> map log_key entries
             = map (\<lambda>i. (the (oi_product_id i), oi_quantity i, ''order_cancelled'',
                         Some (o_id order)))
                 (filter (\<lambda>i. product_by_id (pending s) (oi_product_id i) \<noteq> None)
                    (order_items_of (pending s) order))
         \<and> length entries < length (order_items_of (pending s) order)
         \<and> product_by_id (committed s') (oi_product_id item) = None"
proof -
  from cancel_order_success[OF assms(1-4), of reason] obtain s' entries where
    r: "cancel_order s order_id user_id reason is_admin now
             = (Inr (order\<lparr>o_status := OrderStatus_value CANCELLED,
                            o_cancelled_at := Some now,
                            o_cancelled_by := Some user_id,
                            o_cancellation_reason := reason\<rparr>), s')"
    and cm: "committed s' = pending s'"
    and p: "pending s' = (pending s)\<lparr>
               products := (\<lambda>pid. map_option
                              (reserve (- released_qty (order_items_of (pending s) order) pid))
                              (products (pending s) pid)),
               inventory_logs := inventory_logs (pending s) @ entries,
               orders := (orders (pending s))(order_id \<mapsto>
                            order\<lparr>o_status := OrderStatus_value CANCELLED\<rparr>),
               order_status_history := order_status_history (pending s) @
                  [\<lparr>h_order_id = o_id order, h_from_status = Some (o_status order),
                    h_to_status = OrderStatus_value CANCELLED, h_changed_by = Some user_id,
                    h_notes = reason\<rparr>]\<rparr>"
    and k: "map log_key entries
             = map (\<lambda>i. (the (oi_product_id i), oi_quantity i, ''order_cancelled'',
                         Some (o_id order)))
                 (filter (\<lambda>i. product_by_id (pending s) (oi_product_id i) \<noteq> None)
                    (order_items_of (pending s) order))"
    by blast
  have "length entries = length (map log_key entries)" by simp
  also have "\<dots> = length (filter (\<lambda>i. product_by_id (pending s) (oi_product_id i) \<noteq> None)
                              (order_items_of (pending s) order))"
    unfolding k by simp
  also have "\<dots> < length (order_items_of (pending s) order)"
    by (rule length_filter_less[OF assms(5)]) (simp add: assms(6))
  finally have len: "length entries < length (order_items_of (pending s) order)" .
  have gone: "product_by_id (committed s') (oi_product_id item) = None"
    using assms(6) by (simp add: cm p product_by_id_def split: option.splits)
  show ?thesis
    using r len gone k
    by (intro exI[of _ "order\<lparr>o_status := OrderStatus_value CANCELLED,
                            o_cancelled_at := Some now,
                            o_cancelled_by := Some user_id,
                            o_cancellation_reason := reason\<rparr>"]
              exI[of _ s'] exI[of _ entries])
       (simp add: cm p)
qed

theorem cancel_skips_missing_product_witness:
  "orders (pending demo_orphan) 1 = Some demo_order
   \<and> demo_orphan_item \<in> set (order_items_of (pending demo_orphan) demo_order)
   \<and> product_by_id (pending demo_orphan) (oi_product_id demo_orphan_item) = None
   \<and> (\<exists>order' s' entries.
         cancel_order demo_orphan 1 7 (Some ''changed my mind'') False 3600 = (Inr order', s')
       \<and> o_status order' = ''cancelled''
       \<and> o_cancelled_by order' = Some 7
       \<and> inventory_logs (committed s') = inventory_logs (pending demo_orphan) @ entries
       \<and> map log_key entries = [(10, 2, ''order_cancelled'', Some 1)]
       \<and> product_by_id (committed s') (Some 11) = None)"
proof -
  have o: "orders (pending demo_orphan) 1 = Some demo_order" by code_simp
  have own: "False \<or> o_user_id demo_order = Some 7" by code_simp
  have c: "is_cancellable demo_order" by code_simp
  have w: "False \<or> \<not> hours_since_order 3600 demo_order
                        > of_int ORDER_CANCELLATION_WINDOW_HOURS"
    by (simp add: window_seconds demo_order_def)
  have i: "demo_orphan_item \<in> set (order_items_of (pending demo_orphan) demo_order)"
    by code_simp
  have g: "product_by_id (pending demo_orphan) (oi_product_id demo_orphan_item) = None"
    by code_simp
  have f: "map (\<lambda>i. (the (oi_product_id i), oi_quantity i, ''order_cancelled'',
                         Some (o_id demo_order)))
                 (filter (\<lambda>i. product_by_id (pending demo_orphan) (oi_product_id i) \<noteq> None)
                    (order_items_of (pending demo_orphan) demo_order))
             = [(10, 2, ''order_cancelled'', Some 1)]"
    by code_simp
  have i11: "oi_product_id demo_orphan_item = Some 11" by code_simp
  from cancel_skips_missing_product[OF o own c w i g, of "Some ''changed my mind''"]
  obtain order' s' entries where
    "cancel_order demo_orphan 1 7 (Some ''changed my mind'') False 3600 = (Inr order', s')"
    "o_status order' = OrderStatus_value CANCELLED"
    "o_cancelled_by order' = Some 7"
    "inventory_logs (committed s') = inventory_logs (pending demo_orphan) @ entries"
    "map log_key entries
       = map (\<lambda>i. (the (oi_product_id i), oi_quantity i, ''order_cancelled'',
                         Some (o_id demo_order)))
                 (filter (\<lambda>i. product_by_id (pending demo_orphan) (oi_product_id i) \<noteq> None)
                    (order_items_of (pending demo_orphan) demo_order))"
    "product_by_id (committed s') (oi_product_id demo_orphan_item) = None"
    by blast
  then have "\<exists>order' s' entries.
         cancel_order demo_orphan 1 7 (Some ''changed my mind'') False 3600 = (Inr order', s')
       \<and> o_status order' = ''cancelled''
       \<and> o_cancelled_by order' = Some 7
       \<and> inventory_logs (committed s') = inventory_logs (pending demo_orphan) @ entries
       \<and> map log_key entries = [(10, 2, ''order_cancelled'', Some 1)]
       \<and> product_by_id (committed s') (Some 11) = None"
    unfolding f i11
    by (intro exI[of _ order'] exI[of _ s'] exI[of _ entries]) simp
  with o i g show ?thesis by blast
qed


subsection \<open>C4: cancellation inverts the reservation\<close>







subsection \<open>C8: the contract of add_item\<close>



lemma cart_subtotal_loop_cart_items [simp]:
  "cart_subtotal_loop (t\<lparr>cart_items := x\<rparr>) items acc = cart_subtotal_loop t items acc"
  by (induction items arbitrary: acc) (simp_all add: price_of_item_def split: sum.splits)

lemma line_price_cart_items [simp]:
  "line_price (t\<lparr>cart_items := x\<rparr>) i = line_price t i"
  by (simp add: line_price_def live_price_def split: option.splits)







end
